theory Spec2Isabelle
  imports Complex_Main "HOL-Library.Finite_Map"
begin

section \<open>Conventions\<close>

text \<open>
  Python floats are idealised as real numbers, Python integers are \<open>int\<close>, strings are
  \<open>string\<close>, dictionaries are maps.  A Python exception is a value of \<open>py_error\<close>
  returned on the left of a sum.
\<close>

datatype py_error = ZeroDivisionError | FileNotFoundError | ValueError | KeyError

section \<open>Usage ledgers\<close>

subsection \<open>\<open>UserUsageTracker\<close> (gpu\_scheduler/scheduler.py)\<close>

type_synonym usage = "string \<rightharpoonup> real"

definition add_usage :: "usage \<Rightarrow> string \<Rightarrow> real \<Rightarrow> int \<Rightarrow> usage" where
  "add_usage u user duration_sec gpu_count =
     (let current = (case u user of None \<Rightarrow> 0 | Some v \<Rightarrow> v)
      in u(user \<mapsto> current + duration_sec * real_of_int gpu_count))"

definition get_usage :: "usage \<Rightarrow> string \<Rightarrow> real" where
  "get_usage u user = (case u user of None \<Rightarrow> 0 | Some v \<Rightarrow> v)"

subsection \<open>\<open>UsageTracker\<close> (app/services/priority\_engine.py)\<close>

definition tracker_get_usage :: "usage \<Rightarrow> string \<Rightarrow> real" where
  "tracker_get_usage usage_data user = (case usage_data user of None \<Rightarrow> 0 | Some v \<Rightarrow> v)"

definition record_usage :: "usage \<Rightarrow> string \<Rightarrow> int \<Rightarrow> real \<Rightarrow> usage" where
  "record_usage usage_data user vram_gb duration_sec =
     (let usage = (real_of_int vram_gb * duration_sec) / 3600;
          current = (case usage_data user of None \<Rightarrow> 0 | Some v \<Rightarrow> v)
      in usage_data(user \<mapsto> current + usage))"

definition decay_usage :: "usage \<Rightarrow> real \<Rightarrow> usage" where
  "decay_usage usage_data factor =
     (\<lambda>user. case usage_data user of None \<Rightarrow> None | Some v \<Rightarrow> Some (v * factor))"

section \<open>The multi-factor priority of \<open>GpuScheduler\<close>\<close>

record SlurmConfig =
  weight_age :: real
  weight_fairshare :: real
  weight_job_size :: real
  weight_partition :: real
  weight_qos :: real
  fairshare_decay_norm :: real
  partitions :: "string \<rightharpoonup> real"
  qos_levels :: "string \<rightharpoonup> real"

definition default_partitions :: "string \<rightharpoonup> real" where
  "default_partitions = [''debug'' \<mapsto> 1, ''normal'' \<mapsto> 0.5, ''batch'' \<mapsto> 0.1]"

definition default_qos_levels :: "string \<rightharpoonup> real" where
  "default_qos_levels =
     [''admin'' \<mapsto> 1, ''premium'' \<mapsto> 0.8, ''standard'' \<mapsto> 0.5, ''guest'' \<mapsto> 0.1]"

definition default_SlurmConfig :: SlurmConfig where
  "default_SlurmConfig =
     \<lparr> weight_age = 1000, weight_fairshare = 10000, weight_job_size = 500,
       weight_partition = 1000, weight_qos = 1000,
       fairshare_decay_norm = 3600 * 10,
       partitions = default_partitions, qos_levels = default_qos_levels \<rparr>"

text \<open>A path is the directory it lies in and its file name.\<close>

type_synonym path = "string \<times> string"

record Job =
  jobid :: string
  script_path :: path
  user_id :: string
  vram_required :: int
  created_at :: real
  partition_name :: string
  qos :: string
  status :: string
  assigned_gpu :: "int option"
  pid :: "int option"
  priority_score :: real
  debug_factors :: "string \<rightharpoonup> real"

definition time_waiting :: "real \<Rightarrow> Job \<Rightarrow> real" where
  "time_waiting now job = now - created_at job"

definition max_age_sec :: real where
  "max_age_sec = 7 * 24 * 3600"

definition max_vram_ref :: real where
  "max_vram_ref = 80 * 1024 ^ 3"

definition age_factor :: "real \<Rightarrow> Job \<Rightarrow> real" where
  "age_factor now job = min (time_waiting now job / max_age_sec) 1"

definition fs_factor :: "SlurmConfig \<Rightarrow> usage \<Rightarrow> Job \<Rightarrow> real" where
  "fs_factor cfg tracker job =
     1 / (1 + get_usage tracker (user_id job) / fairshare_decay_norm cfg)"

definition size_factor :: "Job \<Rightarrow> real" where
  "size_factor job = min (real_of_int (vram_required job) / max_vram_ref) 1"

definition part_factor :: "SlurmConfig \<Rightarrow> Job \<Rightarrow> real" where
  "part_factor cfg job =
     (case partitions cfg (partition_name job) of None \<Rightarrow> 0.5 | Some v \<Rightarrow> v)"

definition qos_factor :: "SlurmConfig \<Rightarrow> Job \<Rightarrow> real" where
  "qos_factor cfg job = (case qos_levels cfg (qos job) of None \<Rightarrow> 0.5 | Some v \<Rightarrow> v)"

text \<open>The weighted sum that \<open>_calculate_slurm_priority\<close> returns.\<close>

definition slurm_priority :: "SlurmConfig \<Rightarrow> usage \<Rightarrow> real \<Rightarrow> Job \<Rightarrow> real" where
  "slurm_priority cfg tracker now job =
       weight_age cfg * age_factor now job
     + weight_fairshare cfg * fs_factor cfg tracker job
     + weight_job_size cfg * size_factor job
     + weight_partition cfg * part_factor cfg job
     + weight_qos cfg * qos_factor cfg job"

text \<open>
  \<open>_calculate_slurm_priority\<close>: the clock reading \<open>now\<close> is the value of \<open>time.time()\<close>
  inside \<open>time_waiting\<close>.  Both float divisions raise on a zero divisor.  The function
  returns the score and stores the factors on the job.
\<close>

definition calculate_slurm_priority ::
  "SlurmConfig \<Rightarrow> usage \<Rightarrow> real \<Rightarrow> Job \<Rightarrow> py_error + (real \<times> Job)" where
  "calculate_slurm_priority cfg tracker now job =
     (let user_usage = get_usage tracker (user_id job) in
      if fairshare_decay_norm cfg = 0 then Inl ZeroDivisionError
      else if 1 + user_usage / fairshare_decay_norm cfg = 0 then Inl ZeroDivisionError
      else
        let prio = slurm_priority cfg tracker now job
        in Inr (prio,
                job\<lparr>debug_factors :=
                  [''Age'' \<mapsto> age_factor now job,
                   ''FairShare'' \<mapsto> fs_factor cfg tracker job,
                   ''Size'' \<mapsto> size_factor job,
                   ''Partition'' \<mapsto> part_factor cfg job,
                   ''QOS'' \<mapsto> qos_factor cfg job,
                   ''RawUsage'' \<mapsto> user_usage]\<rparr>))"

section \<open>The priority engine (app/services/priority\_engine.py)\<close>

record PriorityConfig =
  WEIGHT_AGE :: real
  WEIGHT_FAIRSHARE :: real
  WEIGHT_JOB_SIZE :: real
  WEIGHT_PARTITION :: real
  WEIGHT_QOS :: real
  MAX_AGE_SEC :: real
  FAIRSHARE_DECAY_NORM :: real
  MAX_VRAM_REF :: real
  PARTITION_SCORES :: "string \<rightharpoonup> real"
  QOS_SCORES :: "string \<rightharpoonup> real"

definition default_PARTITION_SCORES :: "string \<rightharpoonup> real" where
  "default_PARTITION_SCORES = [''debug'' \<mapsto> 1, ''normal'' \<mapsto> 0.5, ''batch'' \<mapsto> 0.2]"

definition default_QOS_SCORES :: "string \<rightharpoonup> real" where
  "default_QOS_SCORES =
     [''hil'' \<mapsto> 1, ''high'' \<mapsto> 0.8, ''standard'' \<mapsto> 0.5, ''low'' \<mapsto> 0.1]"

definition default_PriorityConfig :: PriorityConfig where
  "default_PriorityConfig =
     \<lparr> WEIGHT_AGE = 1000, WEIGHT_FAIRSHARE = 10000, WEIGHT_JOB_SIZE = 500,
       WEIGHT_PARTITION = 1000, WEIGHT_QOS = 10000,
       MAX_AGE_SEC = 7 * 24 * 3600, FAIRSHARE_DECAY_NORM = 10, MAX_VRAM_REF = 80,
       PARTITION_SCORES = default_PARTITION_SCORES, QOS_SCORES = default_QOS_SCORES \<rparr>"

text \<open>
  A timestamp field of a job document, as \<open>datetime.fromisoformat\<close> reads it: absent or
  empty, a string it rejects, or a time in seconds.
\<close>

datatype stamp = NoStamp | BadStamp | Stamp real

text \<open>A job document (a JSON object); a key that is absent is \<open>None\<close>.\<close>

record job_dict =
  d_job_id :: "string option"
  d_job_name :: "string option"
  d_user :: "string option"
  d_script :: "string option"
  d_status :: "string option"
  d_qos :: "string option"
  d_partition :: "string option"
  d_gpu_count :: "int option"
  d_vram_gb :: "int option"
  d_submitted_at :: stamp
  d_started_at :: stamp
  d_completed_at :: stamp
  d_priority_score :: "real option"

text \<open>\<open>dict.get(key, default)\<close>.\<close>

definition getd :: "'a option \<Rightarrow> 'a \<Rightarrow> 'a" where
  "getd v dflt = (case v of None \<Rightarrow> dflt | Some x \<Rightarrow> x)"

text \<open>\<open>str.lower\<close> on ASCII text.\<close>

definition lower_char :: "char \<Rightarrow> char" where
  "lower_char c =
     (case map_of (zip ''ABCDEFGHIJKLMNOPQRSTUVWXYZ'' ''abcdefghijklmnopqrstuvwxyz'') c of
        None \<Rightarrow> c
      | Some l \<Rightarrow> l)"

definition lower :: "string \<Rightarrow> string" where
  "lower s = map lower_char s"

definition engine_qos :: "job_dict \<Rightarrow> string" where
  "engine_qos job =
     (let q = lower (getd (d_qos job) ''standard'') in if q = [] then ''standard'' else q)"

definition engine_partition :: "job_dict \<Rightarrow> string" where
  "engine_partition job =
     (let p = lower (getd (d_partition job) ''normal'') in if p = [] then ''normal'' else p)"

text \<open>
  The waiting time: \<open>now0\<close> is the clock reading that stands in for a missing
  \<open>submitted_at\<close>, \<open>now\<close> the later reading it is subtracted from.
\<close>

definition wait_time_sec :: "real \<Rightarrow> real \<Rightarrow> job_dict \<Rightarrow> real" where
  "wait_time_sec now0 now job =
     now - (case d_submitted_at job of Stamp t \<Rightarrow> t | _ \<Rightarrow> now0)"

definition engine_age_factor :: "PriorityConfig \<Rightarrow> real \<Rightarrow> real \<Rightarrow> job_dict \<Rightarrow> real" where
  "engine_age_factor cfg now0 now job = min (wait_time_sec now0 now job / MAX_AGE_SEC cfg) 1"

definition engine_fs_factor :: "PriorityConfig \<Rightarrow> usage \<Rightarrow> job_dict \<Rightarrow> real" where
  "engine_fs_factor cfg usage_data job =
     1 / (1 + tracker_get_usage usage_data (getd (d_user job) ''unknown'')
                / FAIRSHARE_DECAY_NORM cfg)"

definition engine_size_factor :: "PriorityConfig \<Rightarrow> job_dict \<Rightarrow> real" where
  "engine_size_factor cfg job =
     min (real_of_int (getd (d_vram_gb job) 2) / MAX_VRAM_REF cfg) 1"

definition engine_part_factor :: "PriorityConfig \<Rightarrow> job_dict \<Rightarrow> real" where
  "engine_part_factor cfg job =
     (case PARTITION_SCORES cfg (engine_partition job) of None \<Rightarrow> 0.5 | Some v \<Rightarrow> v)"

definition engine_qos_factor :: "PriorityConfig \<Rightarrow> job_dict \<Rightarrow> real" where
  "engine_qos_factor cfg job =
     (case QOS_SCORES cfg (engine_qos job) of None \<Rightarrow> 0.5 | Some v \<Rightarrow> v)"

definition engine_priority :: "PriorityConfig \<Rightarrow> usage \<Rightarrow> real \<Rightarrow> real \<Rightarrow> job_dict \<Rightarrow> real" where
  "engine_priority cfg usage_data now0 now job =
       WEIGHT_AGE cfg * engine_age_factor cfg now0 now job
     + WEIGHT_FAIRSHARE cfg * engine_fs_factor cfg usage_data job
     + WEIGHT_JOB_SIZE cfg * engine_size_factor cfg job
     + WEIGHT_PARTITION cfg * engine_part_factor cfg job
     + WEIGHT_QOS cfg * engine_qos_factor cfg job"

text \<open>
  \<open>PriorityEngine.calculate_priority\<close>.  A \<open>submitted_at\<close> that does not parse raises
  \<open>ValueError\<close>; a division by zero raises.  The formatted \<open>_debug_factors\<close> it attaches
  to the document are left out.
\<close>

definition calculate_priority ::
  "PriorityConfig \<Rightarrow> usage \<Rightarrow> real \<Rightarrow> real \<Rightarrow> job_dict \<Rightarrow> py_error + real" where
  "calculate_priority cfg usage_data now0 now job =
     (if d_submitted_at job = BadStamp then Inl ValueError
      else if MAX_AGE_SEC cfg = 0 then Inl ZeroDivisionError
      else if FAIRSHARE_DECAY_NORM cfg = 0 then Inl ZeroDivisionError
      else if 1 + tracker_get_usage usage_data (getd (d_user job) ''unknown'')
                    / FAIRSHARE_DECAY_NORM cfg = 0 then Inl ZeroDivisionError
      else if MAX_VRAM_REF cfg = 0 then Inl ZeroDivisionError
      else Inr (engine_priority cfg usage_data now0 now job))"

section \<open>The mock SLURM daemon (docker/slurm-mock/bin/job\_manager.py)\<close>

definition MAX_CONCURRENT :: int where
  "MAX_CONCURRENT = 2"

definition W_FAIR :: real where
  "W_FAIR = 1"

definition W_AGE :: real where
  "W_AGE = 1"

definition W_PHYS :: real where
  "W_PHYS = 2"

definition W_RES :: real where
  "W_RES = 1"

definition W_HIL :: real where
  "W_HIL = 10"

definition PHYS_KEYWORDS :: "string list" where
  "PHYS_KEYWORDS = [''physics'', ''sim'', ''simulation'', ''isaac'', ''robot'', ''mujoco'']"

fun is_prefix_of :: "string \<Rightarrow> string \<Rightarrow> bool" where
  "is_prefix_of [] ys = True"
| "is_prefix_of (x # xs) [] = False"
| "is_prefix_of (x # xs) (y # ys) = (x = y \<and> is_prefix_of xs ys)"

text \<open>\<open>kw in text\<close> on strings.\<close>

fun contains :: "string \<Rightarrow> string \<Rightarrow> bool" where
  "contains kw [] = (kw = [])"
| "contains kw (c # cs) = (is_prefix_of kw (c # cs) \<or> contains kw cs)"

text \<open>
  \<open>round(x, 2)\<close> is Python's rounding of a binary float to two decimals.  Which way it
  goes near a tie depends on the float, not on the real number it stands for, so it is not
  defined here: it is the parameter \<open>rnd\<close> of \<open>compute_priority\<close>.  What is assumed of
  it, where something is, is that it moves no score by more than a hundredth.
\<close>

definition round2_close :: "(real \<Rightarrow> real) \<Rightarrow> bool" where
  "round2_close rnd = (\<forall>x. \<bar>rnd x - x\<bar> \<le> 1 / 100)"

text \<open>
  One rounding to hundredths, for the examples: their scores are multiples of a half, which
  every rounding to two decimals, Python's too, leaves as they are.
\<close>

definition round_hundredths :: "real \<Rightarrow> real" where
  "round_hundredths x = of_int \<lfloor>x * 100 + 1 / 2\<rfloor> / 100"

definition is_active :: "job_dict \<Rightarrow> bool" where
  "is_active j = (d_status j = Some ''PENDING'' \<or> d_status j = Some ''RUNNING'')"

definition f_fair :: "job_dict \<Rightarrow> job_dict list \<Rightarrow> real" where
  "f_fair job all_jobs =
     (let user = getd (d_user job) '''' in
      if user \<noteq> [] then
        1 / real (max (length (filter (\<lambda>j. getd (d_user j) '''' = user \<and> is_active j) all_jobs)) 1)
      else 1)"

definition f_age :: "real \<Rightarrow> job_dict \<Rightarrow> real" where
  "f_age now job =
     (case d_submitted_at job of Stamp sub \<Rightarrow> max ((now - sub) / 60) 0 | _ \<Rightarrow> 0)"

definition f_phys :: "job_dict \<Rightarrow> real" where
  "f_phys job =
     (let text = lower (getd (d_job_name job) '''' @ '' '' @ getd (d_script job) '''')
      in if list_ex (\<lambda>kw. contains kw text) PHYS_KEYWORDS then 1 else 0)"

definition f_res :: "job_dict \<Rightarrow> real" where
  "f_res job = 1 / real_of_int (max (getd (d_gpu_count job) 1) 1)"

definition f_hil :: "job_dict \<Rightarrow> real" where
  "f_hil job = (if lower (getd (d_qos job) '''') = ''hil'' then 1 else 0)"

text \<open>
  \<open>compute_priority\<close>; \<open>now\<close> is its reading of \<open>datetime.utcnow()\<close> and \<open>rnd\<close> is
  \<open>round(x, 2)\<close>.
\<close>

definition compute_priority ::
  "(real \<Rightarrow> real) \<Rightarrow> real \<Rightarrow> job_dict \<Rightarrow> job_dict list \<Rightarrow> real" where
  "compute_priority rnd now job all_jobs =
     rnd (W_FAIR * f_fair job all_jobs + W_AGE * f_age now job + W_PHYS * f_phys job
                + W_RES * f_res job + W_HIL * f_hil job)"

text \<open>
  Step 1 of \<open>process_jobs\<close>: a running job started at least 30 s ago completes and its
  file is saved.  The message printed afterwards reads \<open>job['job_id']\<close>, which raises
  \<open>KeyError\<close> on a document without that key and ends the pass.
\<close>

definition is_due :: "real \<Rightarrow> job_dict \<Rightarrow> bool" where
  "is_due now job =
     (d_status job = Some ''RUNNING'' \<and>
      (case d_started_at job of Stamp started \<Rightarrow> now - started \<ge> 30 | _ \<Rightarrow> False))"

fun complete_loop :: "real \<Rightarrow> job_dict list \<Rightarrow> py_error option \<times> job_dict list" where
  "complete_loop now [] = (None, [])"
| "complete_loop now (job # rest) =
     (if is_due now job then
        (let job' = job\<lparr>d_status := Some ''COMPLETED'', d_completed_at := Stamp now\<rparr>
         in if d_job_id job = None then (Some KeyError, job' # rest)
            else (case complete_loop now rest of (e, rest') \<Rightarrow> (e, job' # rest')))
      else (case complete_loop now rest of (e, rest') \<Rightarrow> (e, job # rest')))"

definition d_running_count :: "job_dict list \<Rightarrow> nat" where
  "d_running_count entries = length (filter (\<lambda>j. d_status j = Some ''RUNNING'') entries)"

text \<open>
  The pending job files, by their position in \<open>entries\<close>, each with its score; \<open>clk k\<close>
  is the clock reading of the \<open>k\<close>-th call of \<open>compute_priority\<close>.
\<close>

definition pending_scored ::
  "(real \<Rightarrow> real) \<Rightarrow> (nat \<Rightarrow> real) \<Rightarrow> job_dict list \<Rightarrow> (nat \<times> real) list" where
  "pending_scored rnd clk entries =
     map (\<lambda>(k, i). (i, compute_priority rnd (clk k) (entries ! i) entries))
       (enumerate 0 (filter (\<lambda>i. d_status (entries ! i) = Some ''PENDING'') [0..<length entries]))"

text \<open>
  Step 4: the walk over the sorted pending jobs while slots remain.  Here too the message
  printed after the file is saved raises \<open>KeyError\<close> on a document without \<open>job_id\<close>.
\<close>

definition start_job :: "real \<Rightarrow> real \<Rightarrow> job_dict \<Rightarrow> job_dict" where
  "start_job now p job =
     job\<lparr>d_status := Some ''RUNNING'', d_started_at := Stamp now, d_priority_score := Some p\<rparr>"

fun admit_loop ::
  "real \<Rightarrow> int \<Rightarrow> (nat \<times> real) list \<Rightarrow> job_dict list \<Rightarrow> py_error option \<times> job_dict list" where
  "admit_loop now available_slots [] entries = (None, entries)"
| "admit_loop now available_slots ((i, p) # rest) entries =
     (if available_slots \<le> 0 then (None, entries)
      else
        let entries' = entries[i := start_job now p (entries ! i)]
        in if d_job_id (entries ! i) = None then (Some KeyError, entries')
           else admit_loop now (available_slots - 1) rest entries')"

text \<open>
  \<open>process_jobs\<close> on the job files \<open>entries\<close>: the exception that ended the pass, if any,
  and what the files hold after it (a score is written only with an admitted job).
\<close>

definition process_jobs ::
  "(real \<Rightarrow> real) \<Rightarrow> real \<Rightarrow> (nat \<Rightarrow> real) \<Rightarrow> job_dict list
     \<Rightarrow> py_error option \<times> job_dict list" where
  "process_jobs rnd now clk entries =
     (if entries = [] then (None, entries)
      else
        (case complete_loop now entries of
           (Some e, entries1) \<Rightarrow> (Some e, entries1)
         | (None, entries1) \<Rightarrow>
             let available_slots = MAX_CONCURRENT - int (d_running_count entries1)
             in if available_slots \<le> 0 then (None, entries1)
                else
                  let pending = sort_key (\<lambda>(i, p). - p) (pending_scored rnd clk entries1)
                  in admit_loop now available_slots pending entries1))"

text \<open>
  The job files over time: new documents arrive with status \<open>PENDING\<close>, and the daemon
  runs \<open>process_jobs\<close> again and again.
\<close>

inductive reachable :: "job_dict list \<Rightarrow> bool" where
  start: "reachable []"
| submit: "reachable entries \<Longrightarrow> d_status job = Some ''PENDING'' \<Longrightarrow> reachable (entries @ [job])"
| pass: "reachable entries \<Longrightarrow> reachable (snd (process_jobs rnd now clk entries))"

section \<open>Directory layout (gpu\_scheduler/dirs.py)\<close>

text \<open>
  The file system is the set of directories that exist and a finite map from the paths
  of the files to their contents.
\<close>

datatype 'a outcome = Returned 'a | Raised py_error

record fs =
  dirs :: "string set"
  files :: "(path, string) fmap"

definition to_run_dir :: "string \<Rightarrow> string" where
  "to_run_dir root_dir = root_dir @ ''/to_run''"

definition running_dir :: "string \<Rightarrow> string" where
  "running_dir root_dir = root_dir @ ''/running''"

definition complete_dir :: "string \<Rightarrow> string" where
  "complete_dir root_dir = root_dir @ ''/complete''"

definition fail_dir :: "string \<Rightarrow> string" where
  "fail_dir root_dir = root_dir @ ''/fail''"

definition out_dir :: "string \<Rightarrow> string" where
  "out_dir root_dir = root_dir @ ''/out''"

definition setup_dirs :: "string \<Rightarrow> fs \<Rightarrow> fs" where
  "setup_dirs root_dir f =
     f\<lparr>dirs := dirs f \<union>
        {to_run_dir root_dir, running_dir root_dir, complete_dir root_dir, fail_dir root_dir, out_dir root_dir}\<rparr>"

text \<open>\<open>str(counter)\<close> for a non-negative integer: its decimal digits.\<close>

definition digit_char :: "nat \<Rightarrow> char" where
  "digit_char d = ''0123456789'' ! d"

fun str_nat :: "nat \<Rightarrow> string" where
  "str_nat n =
     (if n < 10 then [digit_char n] else str_nat (n div 10) @ [digit_char (n mod 10)])"

declare str_nat.simps [simp del]

text \<open>
  \<open>os.path.splitext\<close> on a file name without a directory separator: the extension
  starts at the last dot, unless only dots precede it.
\<close>

definition splitext :: "string \<Rightarrow> string \<times> string" where
  "splitext p =
     (let ext_rev = takeWhile (\<lambda>c. c \<noteq> CHR ''.'') (rev p) in
      if length ext_rev = length p then (p, [])
      else
        let dot_index = length p - length ext_rev - 1;
            stem = take dot_index p
        in if list_all (\<lambda>c. c = CHR ''.'') stem then (p, [])
           else (stem, drop dot_index p))"

text \<open>
  The loop of \<open>safe_rename\<close>:
  \<^verbatim>\<open>while target.exists(): target = dst_dir / f"{base}_{counter}{ext}"; counter += 1\<close>
\<close>

definition candidate :: "string \<Rightarrow> string \<Rightarrow> string \<Rightarrow> nat \<Rightarrow> path" where
  "candidate dst_dir base ext counter = (dst_dir, base @ ''_'' @ str_nat counter @ ext)"

function find_target ::
  "(path, string) fmap \<Rightarrow> string \<Rightarrow> string \<Rightarrow> string \<Rightarrow> nat \<Rightarrow> path \<Rightarrow> path" where
  "find_target fls dst_dir base ext counter target =
     (if target |\<in>| fmdom fls
      then find_target fls dst_dir base ext (counter + 1) (candidate dst_dir base ext counter)
      else target)"
  by pat_completeness auto

text \<open>The counters from \<open>counter\<close> on whose candidate name is taken: the loop's variant.\<close>

definition occupied :: "(path, string) fmap \<Rightarrow> string \<Rightarrow> string \<Rightarrow> string \<Rightarrow> nat \<Rightarrow> nat set" where
  "occupied fls dst_dir base ext counter =
     {k. counter \<le> k \<and> candidate dst_dir base ext k |\<in>| fmdom fls}"

text \<open>
  \<open>safe_rename\<close>: \<open>mkdir\<close> of the destination, the choice of the target, and
  \<open>src.replace(target)\<close>, which raises when \<open>src\<close> does not exist.
\<close>

definition safe_rename :: "fs \<Rightarrow> path \<Rightarrow> string \<Rightarrow> string option \<Rightarrow> path outcome \<times> fs" where
  "safe_rename f src dst_dir new_name_opt =
     (let f1 = f\<lparr>dirs := insert dst_dir (dirs f)\<rparr>;
          new_name = (case new_name_opt of None \<Rightarrow> snd src | Some n \<Rightarrow> n);
          target0 = (dst_dir, new_name);
          base = fst (splitext new_name);
          ext = snd (splitext new_name);
          target = find_target (files f1) dst_dir base ext 1 target0
      in case fmlookup (files f1) src of
           None \<Rightarrow> (Raised FileNotFoundError, f1)
         | Some content \<Rightarrow>
             (Returned target, f1\<lparr>files := fmupd target content (fmdrop src (files f1))\<rparr>))"

section \<open>The scheduler (gpu\_scheduler/scheduler.py)\<close>

record GpuMetrics =
  gpu_id :: int
  gpu_name :: string
  memory_total :: int
  memory_used :: int
  temperature :: "int option"
  utilization :: "int option"
  is_healthy :: bool

text \<open>What \<open>GpuMonitor.list_gpus\<close> reports when NVML is not available.\<close>

definition virtual_gpus :: "GpuMetrics list" where
  "virtual_gpus =
     [\<lparr> gpu_id = 0, gpu_name = ''virtual-gpu-0'', memory_total = 16 * 1024 ^ 3,
        memory_used = 0, temperature = None, utilization = None, is_healthy = True \<rparr>]"

text \<open>
  \<open>InMemoryJobStore\<close>: a dictionary keyed by job id, in insertion order.
  \<open>self._jobs[job.id] = job\<close> replaces the entry of that id or appends a new one.
\<close>

fun put_job :: "Job list \<Rightarrow> Job \<Rightarrow> Job list" where
  "put_job [] job = [job]"
| "put_job (j # js) job = (if jobid j = jobid job then job # js else j # put_job js job)"

definition add_job :: "Job list \<Rightarrow> Job \<Rightarrow> Job list" where
  "add_job js job = put_job js job"

definition update_job :: "Job list \<Rightarrow> Job \<Rightarrow> Job list" where
  "update_job js job = put_job js job"

fun get_job :: "Job list \<Rightarrow> string \<Rightarrow> Job option" where
  "get_job [] i = None"
| "get_job (j # js) i = (if jobid j = i then Some j else get_job js i)"

record Sched =
  layout :: string
  jobs :: "Job list"
  usage_tracker :: usage
  config :: SlurmConfig
  fsys :: fs

definition GpuScheduler_init :: "string \<Rightarrow> fs \<Rightarrow> Sched" where
  "GpuScheduler_init root_dir f =
     \<lparr> layout = root_dir, jobs = [], usage_tracker = Map.empty,
       config = default_SlurmConfig, fsys = setup_dirs root_dir f \<rparr>"

text \<open>
  \<open>submit_job\<close>: \<open>job_id\<close> is the value of \<open>uuid.uuid4()\<close> and \<open>now\<close> the value of
  \<open>time.time()\<close>.
\<close>

definition submit_job ::
  "Sched \<Rightarrow> path \<Rightarrow> string \<Rightarrow> int \<Rightarrow> string \<Rightarrow> string \<Rightarrow> string \<Rightarrow> real \<Rightarrow> Job outcome \<times> Sched" where
  "submit_job st src_script user vram part q job_id now =
     (case safe_rename (fsys st) src_script (to_run_dir (layout st)) (Some (job_id @ ''.py'')) of
        (Raised e, f') \<Rightarrow> (Raised e, st\<lparr>fsys := f'\<rparr>)
      | (Returned dst, f') \<Rightarrow>
          let job = \<lparr> jobid = job_id, script_path = dst, user_id = user,
                      vram_required = vram, created_at = now, partition_name = part,
                      qos = q, status = ''QUEUED'', assigned_gpu = None, pid = None,
                      priority_score = 0, debug_factors = Map.empty \<rparr>
          in (Returned job, st\<lparr>fsys := f', jobs := add_job (jobs st) job\<rparr>))"

text \<open>
  The loop of \<open>_pick_next_job\<close> that rescores every queued job of the store in place;
  \<open>clk k\<close> is the clock reading for the \<open>k\<close>-th candidate.  An exception leaves the
  candidates scored so far changed.
\<close>

fun score_candidates ::
  "SlurmConfig \<Rightarrow> usage \<Rightarrow> (nat \<Rightarrow> real) \<Rightarrow> nat \<Rightarrow> Job list \<Rightarrow> py_error option \<times> Job list" where
  "score_candidates cfg u clk k [] = (None, [])"
| "score_candidates cfg u clk k (j # js) =
     (if status j = ''QUEUED'' then
        (case calculate_slurm_priority cfg u (clk k) j of
           Inl e \<Rightarrow> (Some e, j # js)
         | Inr (p, j') \<Rightarrow>
             (case score_candidates cfg u clk (k + 1) js of
                (e, js') \<Rightarrow> (e, j'\<lparr>priority_score := p\<rparr> # js')))
      else
        (case score_candidates cfg u clk k js of (e, js') \<Rightarrow> (e, j # js')))"

definition queued :: "Job list \<Rightarrow> Job list" where
  "queued js = filter (\<lambda>j. status j = ''QUEUED'') js"

text \<open>
  \<open>candidates.sort(key=..., reverse=True)\<close> is a stable sort by descending score;
  the job returned is \<open>candidates[0]\<close>.
\<close>

definition pick_next_job :: "Sched \<Rightarrow> (nat \<Rightarrow> real) \<Rightarrow> Job option outcome \<times> Sched" where
  "pick_next_job st clk =
     (if queued (jobs st) = [] then (Returned None, st)
      else
        (case score_candidates (config st) (usage_tracker st) clk 0 (jobs st) of
           (Some e, js') \<Rightarrow> (Raised e, st\<lparr>jobs := js'\<rparr>)
         | (None, js') \<Rightarrow>
             (case sort_key (\<lambda>j. - priority_score j) (queued js') of
                [] \<Rightarrow> (Returned None, st\<lparr>jobs := js'\<rparr>)
              | c # _ \<Rightarrow> (Returned (Some c), st\<lparr>jobs := js'\<rparr>))))"

fun gpu_loop :: "GpuMetrics list \<Rightarrow> Job list \<Rightarrow> int \<Rightarrow> int option" where
  "gpu_loop [] running_jobs vram = None"
| "gpu_loop (m # ms) running_jobs vram =
     (if \<not> is_healthy m then gpu_loop ms running_jobs vram
      else if gpu_name m = ''virtual-gpu-0'' \<and> length running_jobs > 0
        then gpu_loop ms running_jobs vram
      else if memory_total m - memory_used m \<ge> vram \<and> memory_used m < 1 * 1024 ^ 3
        then Some (gpu_id m)
      else gpu_loop ms running_jobs vram)"

definition find_available_gpu :: "GpuMetrics list \<Rightarrow> Job list \<Rightarrow> int \<Rightarrow> int option" where
  "find_available_gpu metrics js vram =
     gpu_loop metrics (filter (\<lambda>j. status j = ''RUNNING'') js) vram"

text \<open>\<open>ProcessRunner.start_process\<close> opens the log file for writing.\<close>

definition start_process :: "fs \<Rightarrow> string \<Rightarrow> string \<Rightarrow> fs" where
  "start_process f logs_dir job_id = f\<lparr>files := fmupd (logs_dir, job_id @ ''.log'') [] (files f)\<rparr>"

text \<open>\<open>_launch_job\<close>: \<open>metrics\<close> is the monitor's snapshot, \<open>new_pid\<close> the child's pid.\<close>

definition launch_job :: "Sched \<Rightarrow> GpuMetrics list \<Rightarrow> int \<Rightarrow> Job \<Rightarrow> unit outcome \<times> Sched" where
  "launch_job st metrics new_pid job =
     (case find_available_gpu metrics (jobs st) (vram_required job) of
        None \<Rightarrow> (Returned (), st)
      | Some g \<Rightarrow>
          (case safe_rename (fsys st) (script_path job) (running_dir (layout st)) None of
             (Raised e, f') \<Rightarrow> (Raised e, st\<lparr>fsys := f'\<rparr>)
           | (Returned new_script_path, f') \<Rightarrow>
               let job' = job\<lparr>script_path := new_script_path, status := ''RUNNING'',
                               assigned_gpu := Some g, pid := Some new_pid\<rparr>;
                   f'' = start_process f' (out_dir (layout st)) (jobid job)
               in (Returned (), st\<lparr>fsys := f'', jobs := update_job (jobs st) job'\<rparr>)))"

text \<open>
  \<open>_wait_and_finalize\<close> once the child has returned \<open>return_code\<close>; \<open>now\<close> is the clock
  reading after the wait.
\<close>

definition wait_and_finalize :: "Sched \<Rightarrow> Job \<Rightarrow> int \<Rightarrow> real \<Rightarrow> real \<Rightarrow> unit outcome \<times> Sched" where
  "wait_and_finalize st job return_code start_time now =
     (let duration = now - start_time;
          st1 = st\<lparr>usage_tracker := add_usage (usage_tracker st) (user_id job) duration 1\<rparr>
      in if return_code = 0 then
           (case safe_rename (fsys st1) (script_path job) (complete_dir (layout st1)) None of
              (Raised e, f') \<Rightarrow> (Raised e, st1\<lparr>fsys := f'\<rparr>)
            | (Returned p, f') \<Rightarrow>
                (Returned (), st1\<lparr>fsys := f',
                    jobs := update_job (jobs st1) (job\<lparr>status := ''COMPLETED''\<rparr>)\<rparr>))
         else
           (case safe_rename (fsys st1) (script_path job) (fail_dir (layout st1)) None of
              (Raised e, f') \<Rightarrow> (Raised e, st1\<lparr>fsys := f'\<rparr>)
            | (Returned p, f') \<Rightarrow>
                (Returned (), st1\<lparr>fsys := f',
                    jobs := update_job (jobs st1) (job\<lparr>status := ''FAILED''\<rparr>)\<rparr>)))"

text \<open>One iteration of the loop of \<open>run_forever\<close>.\<close>

definition run_forever_step ::
  "Sched \<Rightarrow> GpuMetrics list \<Rightarrow> (nat \<Rightarrow> real) \<Rightarrow> int \<Rightarrow> unit outcome \<times> Sched" where
  "run_forever_step st metrics clk new_pid =
     (case pick_next_job st clk of
        (Raised e, st1) \<Rightarrow> (Raised e, st1)
      | (Returned None, st1) \<Rightarrow> (Returned (), st1)
      | (Returned (Some next_job), st1) \<Rightarrow> launch_job st1 metrics new_pid next_job)"

definition running_count :: "Sched \<Rightarrow> nat" where
  "running_count st = length (filter (\<lambda>j. status j = ''RUNNING'') (jobs st))"

text \<open>The name \<open>safe_rename\<close> asks for: \<open>new_name\<close>, or the base name of \<open>src\<close>.\<close>

definition rename_name :: "path \<Rightarrow> string option \<Rightarrow> string" where
  "rename_name src new_name_opt = (case new_name_opt of None \<Rightarrow> snd src | Some n \<Rightarrow> n)"

text \<open>Two uploads of the same name, and a script of that name already running.\<close>

definition fs_example :: fs where
  "fs_example =
     \<lparr> dirs = {''work/running''},
       files = fmupd (''up1'', ''a.py'') ''print(1)''
                (fmupd (''up2'', ''a.py'') ''print(2)''
                  (fmupd (''work/running'', ''a.py'') ''print(0)'' fmempty)) \<rparr>"

text \<open>A freshly started scheduler over a directory with one uploaded script.\<close>

definition sched_example :: Sched where
  "sched_example =
     GpuScheduler_init ''work''
       \<lparr>dirs = {}, files = fmupd (''uploads'', ''train.py'') ''print(1)'' fmempty\<rparr>"

text \<open>A scheduler with one running job whose script lies in \<open>running/\<close>.\<close>

definition job_running_example :: Job where
  "job_running_example =
     \<lparr> jobid = ''j1'', script_path = (''work/running'', ''j1.py''), user_id = ''alice'',
       vram_required = 1024 ^ 3, created_at = 0, partition_name = ''normal'',
       qos = ''standard'', status = ''RUNNING'', assigned_gpu = Some 0, pid = Some 4242,
       priority_score = 11000, debug_factors = Map.empty \<rparr>"

definition sched_running_example :: Sched where
  "sched_running_example =
     \<lparr> layout = ''work'', jobs = [job_running_example], usage_tracker = Map.empty,
       config = default_SlurmConfig,
       fsys = \<lparr> dirs = {''work/running''},
                files = fmupd (''work/running'', ''j1.py'') ''print(1)'' fmempty \<rparr> \<rparr>"

text \<open>The directory tree a crashed scheduler leaves behind: a script in \<open>running/\<close>.\<close>

definition fs_crashed :: fs where
  "fs_crashed =
     \<lparr> dirs = {''work/to_run'', ''work/running'', ''work/complete'', ''work/fail'', ''work/out''},
       files = fmupd (''work/running'', ''j1.py'') ''print(1)'' fmempty \<rparr>"

text \<open>A score table whose values all lie between 0 and 1.\<close>

definition unit_table :: "(string \<rightharpoonup> real) \<Rightarrow> bool" where
  "unit_table m = (\<forall>k v. m k = Some v \<longrightarrow> 0 \<le> v \<and> v \<le> 1)"

text \<open>A job asking for a negative amount of memory, which \<open>submit_job\<close> accepts.\<close>

definition job_negative_vram :: Job where
  "job_negative_vram =
     \<lparr> jobid = ''j1'', script_path = (''work/to_run'', ''j1.py''), user_id = ''alice'',
       vram_required = - (1024 ^ 3), created_at = 0, partition_name = ''normal'',
       qos = ''standard'', status = ''QUEUED'', assigned_gpu = None, pid = None,
       priority_score = 0, debug_factors = Map.empty \<rparr>"

text \<open>A queued job and a pending job document, half a week old.\<close>

definition job_waiting_example :: Job where
  "job_waiting_example =
     \<lparr> jobid = ''j2'', script_path = (''work/to_run'', ''j2.py''), user_id = ''bob'',
       vram_required = 40 * 1024 ^ 3, created_at = 0, partition_name = ''debug'',
       qos = ''vip'', status = ''QUEUED'', assigned_gpu = None, pid = None,
       priority_score = 0, debug_factors = Map.empty \<rparr>"

definition doc_waiting_example :: job_dict where
  "doc_waiting_example =
     \<lparr> d_job_id = Some ''1001'', d_job_name = Some ''train'', d_user = Some ''bob'',
       d_script = Some ''/tmp/script.sh'', d_status = Some ''PENDING'', d_qos = Some ''HIL'',
       d_partition = Some ''gpu'', d_gpu_count = Some 1, d_vram_gb = Some 40,
       d_submitted_at = Stamp 0, d_started_at = NoStamp, d_completed_at = NoStamp,
       d_priority_score = None \<rparr>"

text \<open>
  Scheduler states for the examples: queued jobs created at time 0 whose scripts lie in
  \<open>to_run\<close>, and a real GPU that reports no memory in use.
\<close>

definition queued_job :: "string \<Rightarrow> string \<Rightarrow> int \<Rightarrow> string \<Rightarrow> Job" where
  "queued_job i user vram q =
     \<lparr> jobid = i, script_path = (''work/to_run'', i @ ''.py''), user_id = user,
       vram_required = vram, created_at = 0, partition_name = ''normal'',
       qos = q, status = ''QUEUED'', assigned_gpu = None, pid = None,
       priority_score = 0, debug_factors = Map.empty \<rparr>"

definition sched_with :: "Job list \<Rightarrow> Sched" where
  "sched_with js =
     \<lparr> layout = ''work'', jobs = js, usage_tracker = Map.empty, config = default_SlurmConfig,
       fsys = \<lparr> dirs = {''work/to_run''},
                files = fmap_of_list (map (\<lambda>j. (script_path j, ''print(1)'')) js) \<rparr> \<rparr>"


definition sched_queue_example :: Sched where
  "sched_queue_example =
     sched_with [queued_job ''small'' ''bob'' (1024 ^ 3) ''guest'',
                 queued_job ''mid'' ''alice'' (2 * 1024 ^ 3) ''admin'']"

definition gpu_idle_example :: GpuMetrics where
  "gpu_idle_example =
     \<lparr> gpu_id = 0, gpu_name = ''NVIDIA A100'', memory_total = 80 * 1024 ^ 3, memory_used = 0,
       temperature = Some 40, utilization = Some 0, is_healthy = True \<rparr>"

definition sched_three_example :: Sched where
  "sched_three_example =
     sched_with [queued_job ''j1'' ''alice'' (1024 ^ 3) ''standard'',
                 queued_job ''j2'' ''bob'' (1024 ^ 3) ''standard'',
                 queued_job ''j3'' ''carol'' (1024 ^ 3) ''standard'']"

text \<open>Two job documents that differ at most in their QoS (and their id).\<close>

definition same_but_qos :: "job_dict \<Rightarrow> job_dict \<Rightarrow> bool" where
  "same_but_qos a b =
     (d_user a = d_user b \<and> d_submitted_at a = d_submitted_at b \<and> d_job_name a = d_job_name b
      \<and> d_script a = d_script b \<and> d_gpu_count a = d_gpu_count b)"

text \<open>A pending job document submitted at time 0, and three of them.\<close>

definition pending_doc :: "string \<Rightarrow> string \<Rightarrow> string \<Rightarrow> job_dict" where
  "pending_doc i user q =
     \<lparr> d_job_id = Some i, d_job_name = Some ''train'', d_user = Some user,
       d_script = Some ''/tmp/script.sh'', d_status = Some ''PENDING'', d_qos = Some q,
       d_partition = Some ''normal'', d_gpu_count = Some 1, d_vram_gb = Some 2,
       d_submitted_at = Stamp 0, d_started_at = NoStamp, d_completed_at = NoStamp,
       d_priority_score = None \<rparr>"

definition docs_example :: "job_dict list" where
  "docs_example =
     [pending_doc ''1001'' ''alice'' ''standard'', pending_doc ''1002'' ''alice'' ''hil'',
      pending_doc ''1003'' ''carol'' ''standard'']"

text \<open>The job files after every job of a list has been started, in order.\<close>

definition admit_all :: "real \<Rightarrow> (nat \<times> real) list \<Rightarrow> job_dict list \<Rightarrow> job_dict list" where
  "admit_all now xs es = fold (\<lambda>(i, p) es'. es'[i := start_job now p (es' ! i)]) xs es"

text \<open>
  Two pending documents that differ in QoS only, and two queued jobs of
  \<open>GpuScheduler\<close> that differ in QoS only.
\<close>

definition docs_pair_example :: "job_dict list" where
  "docs_pair_example =
     [pending_doc ''1001'' ''alice'' ''standard'', pending_doc ''1002'' ''alice'' ''hil'']"

definition sched_qos_example :: Sched where
  "sched_qos_example =
     sched_with [queued_job ''j1'' ''alice'' (1024 ^ 3) ''standard'',
                 queued_job ''j2'' ''alice'' (1024 ^ 3) ''hil'']"


text \<open>A running job whose script is no longer at its recorded path.\<close>

definition sched_moved_example :: Sched where
  "sched_moved_example =
     sched_running_example\<lparr>fsys := \<lparr>dirs = {''work/running''}, files = fmempty\<rparr>\<rparr>"


section \<open>Termination of the renaming loop\<close>

lemma digit_char_inj: "a < 10 \<Longrightarrow> b < 10 \<Longrightarrow> digit_char a = digit_char b \<Longrightarrow> a = b"
  unfolding digit_char_def
  by (subst (asm) nth_eq_iff_index_eq) auto

lemma str_nat_nonempty: "str_nat n \<noteq> []" "[] \<noteq> str_nat n"
  by (subst str_nat.simps, simp)+

lemma str_nat_inj: "str_nat n = str_nat m \<Longrightarrow> n = m"
proof (induction n arbitrary: m rule: str_nat.induct)
  case (1 n)
  show ?case
  proof (cases "n < 10")
    case True
    show ?thesis
    proof (cases "m < 10")
      case True
      with \<open>n < 10\<close> "1.prems" show ?thesis
        by (simp add: str_nat.simps [of n] str_nat.simps [of m] digit_char_inj)
    next
      case False
      with \<open>n < 10\<close> "1.prems" show ?thesis
        by (simp add: str_nat.simps [of n] str_nat.simps [of m] str_nat_nonempty)
    qed
  next
    case False
    show ?thesis
    proof (cases "m < 10")
      case True
      with \<open>\<not> n < 10\<close> "1.prems" show ?thesis
        by (simp add: str_nat.simps [of n] str_nat.simps [of m] str_nat_nonempty)
    next
      case mbig: False
      from False mbig "1.prems"
      have e: "str_nat (n div 10) = str_nat (m div 10)"
        and d: "digit_char (n mod 10) = digit_char (m mod 10)"
        by (simp_all add: str_nat.simps [of n] str_nat.simps [of m])
      from "1.IH" [OF False e] have "n div 10 = m div 10" .
      moreover from d have "n mod 10 = m mod 10"
        by (intro digit_char_inj) auto
      ultimately show ?thesis
        by (metis div_mult_mod_eq)
    qed
  qed
qed

lemma candidate_inj: "candidate d b e k = candidate d b e k' \<Longrightarrow> k = k'"
  by (auto simp: candidate_def dest: str_nat_inj)

lemma finite_occupied: "finite (occupied fls dst_dir base ext counter)"
proof -
  have "inj (candidate dst_dir base ext)"
    by (auto simp: inj_def dest: candidate_inj)
  then have "finite (candidate dst_dir base ext -` fset (fmdom fls))"
    by (intro finite_vimageI) auto
  moreover have "occupied fls dst_dir base ext counter
      \<subseteq> candidate dst_dir base ext -` fset (fmdom fls)"
    by (auto simp: occupied_def)
  ultimately show ?thesis by (rule rev_finite_subset)
qed

lemma occupied_step:
  "card (occupied fls d b e (counter + 1))
      + (if candidate d b e counter |\<in>| fmdom fls then 1 else 0)
     = card (occupied fls d b e counter)"
proof -
  have split: "occupied fls d b e counter =
      (if candidate d b e counter |\<in>| fmdom fls then {counter} else {})
        \<union> occupied fls d b e (counter + 1)"
    by (auto simp: occupied_def Suc_le_eq intro: le_neq_implies_less dest: le_antisym)
  have notin: "counter \<notin> occupied fls d b e (counter + 1)"
    by (simp add: occupied_def)
  show ?thesis
    using notin finite_occupied [of fls d b e "counter + 1"]
    by (subst split) (simp del: One_nat_def)
qed

termination find_target
proof (relation "measure (\<lambda>(fls, d, b, e, counter, target).
          card (occupied fls d b e counter) + (if target |\<in>| fmdom fls then 1 else 0))")
  show "wf (measure (\<lambda>(fls, d, b, e, counter, target).
          card (occupied fls d b e counter) + (if target |\<in>| fmdom fls then 1 else 0)))"
    by simp
next
  fix fls :: "(path, string) fmap" and d b e :: string and counter :: nat and target :: path
  assume "target |\<in>| fmdom fls"
  then show "((fls, d, b, e, counter + 1, candidate d b e counter),
               (fls, d, b, e, counter, target))
      \<in> measure (\<lambda>(fls, d, b, e, counter, target).
          card (occupied fls d b e counter) + (if target |\<in>| fmdom fls then 1 else 0))"
    using occupied_step [of fls d b e counter] by simp
qed

declare find_target.simps [simp del]

section \<open>The renaming loop finds the first free name\<close>

lemma find_target_free: "find_target fls d b e c t |\<notin>| fmdom fls"
  by (induction fls d b e c t rule: find_target.induct) (subst find_target.simps, simp)

lemma find_target_unoccupied: "t |\<notin>| fmdom fls \<Longrightarrow> find_target fls d b e c t = t"
  by (subst find_target.simps) simp

lemma find_target_first:
  "t |\<in>| fmdom fls \<Longrightarrow>
     \<exists>k\<ge>c. find_target fls d b e c t = candidate d b e k
        \<and> (\<forall>i. c \<le> i \<and> i < k \<longrightarrow> candidate d b e i |\<in>| fmdom fls)"
proof (induction fls d b e c t rule: find_target.induct)
  case (1 fls d b e c t)
  show ?case
  proof (cases "candidate d b e c |\<in>| fmdom fls")
    case False
    with "1.prems" have "find_target fls d b e c t = candidate d b e c"
      by (subst find_target.simps) (simp add: find_target_unoccupied)
    then show ?thesis by auto
  next
    case True
    with "1.IH" [OF "1.prems"] obtain k where k: "c + 1 \<le> k"
      "find_target fls d b e (c + 1) (candidate d b e c) = candidate d b e k"
      "\<forall>i. c + 1 \<le> i \<and> i < k \<longrightarrow> candidate d b e i |\<in>| fmdom fls"
      by auto
    from "1.prems" k(2) have "find_target fls d b e c t = candidate d b e k"
      by (subst find_target.simps) simp
    moreover have "\<forall>i. c \<le> i \<and> i < k \<longrightarrow> candidate d b e i |\<in>| fmdom fls"
    proof (intro allI impI)
      fix i assume "c \<le> i \<and> i < k"
      then consider "i = c" | "c + 1 \<le> i \<and> i < k" by force
      then show "candidate d b e i |\<in>| fmdom fls"
        using True k(3) by cases auto
    qed
    ultimately show ?thesis using k(1) by (intro exI [of _ k]) simp
  qed
qed

lemma find_target_dir: "fst t = d \<Longrightarrow> fst (find_target fls d b e c t) = d"
  by (induction fls d b e c t rule: find_target.induct)
     (subst find_target.simps, simp add: candidate_def)

section \<open>Properties of the ledgers\<close>

text \<open>
  C8.  \<open>add_usage\<close> raises the user's entry by exactly \<open>duration_sec * gpu_count\<close>, a
  missing user counting as zero, and touches no other entry; \<open>get_usage\<close> of an unknown
  user is 0 in both trackers; \<open>decay_usage\<close> multiplies every entry by the factor and
  keeps the set of users.
\<close>

theorem ledger_add_get_decay:
  "get_usage (add_usage u user d g) user = get_usage u user + d * real_of_int g
   \<and> (u user = None \<longrightarrow> get_usage (add_usage u user d g) user = 0 + d * real_of_int g)
   \<and> (other \<noteq> user \<longrightarrow> add_usage u user d g other = u other)
   \<and> (u user = None \<longrightarrow> get_usage u user = 0 \<and> tracker_get_usage u user = 0)
   \<and> dom (decay_usage u f) = dom u
   \<and> (u user = Some v \<longrightarrow> decay_usage u f user = Some (v * f))"
  by (auto simp: get_usage_def add_usage_def tracker_get_usage_def decay_usage_def Let_def
           split: option.splits)

theorem ledger_add_get_decay_witness:
  "get_usage (add_usage [''alice'' \<mapsto> 5] ''bob'' 3 2) ''bob'' = 6
   \<and> add_usage [''alice'' \<mapsto> 5] ''bob'' 3 2 ''alice'' = Some 5
   \<and> get_usage [''alice'' \<mapsto> 5] ''bob'' = 0
   \<and> tracker_get_usage [''alice'' \<mapsto> 5] ''bob'' = 0
   \<and> dom (decay_usage [''alice'' \<mapsto> 5] (1/2)) = {''alice''}
   \<and> decay_usage [''alice'' \<mapsto> 5] (1/2) ''alice'' = Some (5/2)"
  using ledger_add_get_decay [of "[''alice'' \<mapsto> 5]" "''bob''" 3 2 "''alice''" "1/2" 5]
        ledger_add_get_decay [of "[''alice'' \<mapsto> 5]" "''alice''" 0 0 "''bob''" "1/2" 5]
  by (simp add: get_usage_def tracker_get_usage_def)

section \<open>Properties of \<open>safe_rename\<close>\<close>

lemma safe_rename_raises:
  "fmlookup (files f) src = None \<Longrightarrow>
     safe_rename f src dst nm = (Raised FileNotFoundError, f\<lparr>dirs := insert dst (dirs f)\<rparr>)"
  by (simp add: safe_rename_def Let_def)

lemma safe_rename_returns:
  assumes "fmlookup (files f) src = Some c"
  shows "\<exists>t. safe_rename f src dst nm =
            (Returned t, f\<lparr>dirs := insert dst (dirs f),
                           files := fmupd t c (fmdrop src (files f))\<rparr>)
          \<and> fst t = dst \<and> t |\<notin>| fmdom (files f) \<and> t \<noteq> src
          \<and> ((dst, rename_name src nm) |\<notin>| fmdom (files f) \<longrightarrow> t = (dst, rename_name src nm))
          \<and> ((dst, rename_name src nm) |\<in>| fmdom (files f) \<longrightarrow>
               (\<exists>k\<ge>1. t = candidate dst (fst (splitext (rename_name src nm)))
                                (snd (splitext (rename_name src nm))) k
                  \<and> (\<forall>i. 1 \<le> i \<and> i < k \<longrightarrow>
                        candidate dst (fst (splitext (rename_name src nm)))
                          (snd (splitext (rename_name src nm))) i |\<in>| fmdom (files f))))"
proof -
  let ?n = "rename_name src nm"
  let ?b = "fst (splitext ?n)" and ?e = "snd (splitext ?n)"
  let ?t = "find_target (files f) dst ?b ?e 1 (dst, ?n)"
  have eq: "safe_rename f src dst nm =
      (Returned ?t, f\<lparr>dirs := insert dst (dirs f), files := fmupd ?t c (fmdrop src (files f))\<rparr>)"
    using assms by (simp add: safe_rename_def Let_def rename_name_def)
  have free: "?t |\<notin>| fmdom (files f)" by (rule find_target_free)
  have "src |\<in>| fmdom (files f)" using assms by (simp add: fmdomI)
  with free have ne: "?t \<noteq> src" by auto
  have dir: "fst ?t = dst" by (rule find_target_dir) simp
  have a: "(dst, ?n) |\<notin>| fmdom (files f) \<longrightarrow> ?t = (dst, ?n)"
    by (simp add: find_target_unoccupied)
  have b: "(dst, ?n) |\<in>| fmdom (files f) \<longrightarrow>
       (\<exists>k\<ge>1. ?t = candidate dst ?b ?e k
          \<and> (\<forall>i. 1 \<le> i \<and> i < k \<longrightarrow> candidate dst ?b ?e i |\<in>| fmdom (files f)))"
    using find_target_first [of "(dst, ?n)" "files f" 1 dst ?b ?e] by blast
  from eq free ne dir a b show ?thesis by blast
qed

text \<open>
  C6.  When \<open>src\<close> exists, \<open>safe_rename\<close> returns a path in \<open>dst_dir\<close> that no file had:
  the requested name if it is free, and otherwise the stem with the suffix \<open>_k\<close> for the
  least \<open>k\<close> from 1 on whose name is free.  The file is moved there, every other file
  stays as it was, and a second file renamed into the same directory afterwards gets a
  different path: both contents are on disk.
\<close>

theorem safe_rename_never_overwrites:
  assumes "fmlookup (files f) src = Some c"
  shows "\<exists>t. safe_rename f src dst nm =
            (Returned t, f\<lparr>dirs := insert dst (dirs f),
                           files := fmupd t c (fmdrop src (files f))\<rparr>)
          \<and> fst t = dst \<and> t |\<notin>| fmdom (files f)
          \<and> ((dst, rename_name src nm) |\<notin>| fmdom (files f) \<longrightarrow> t = (dst, rename_name src nm))
          \<and> ((dst, rename_name src nm) |\<in>| fmdom (files f) \<longrightarrow>
               (\<exists>k\<ge>1. t = candidate dst (fst (splitext (rename_name src nm)))
                                (snd (splitext (rename_name src nm))) k
                  \<and> (\<forall>i. 1 \<le> i \<and> i < k \<longrightarrow>
                        candidate dst (fst (splitext (rename_name src nm)))
                          (snd (splitext (rename_name src nm))) i |\<in>| fmdom (files f))))
          \<and> (\<forall>p. p \<noteq> src \<and> p \<noteq> t \<longrightarrow>
                 fmlookup (files (snd (safe_rename f src dst nm))) p = fmlookup (files f) p)
          \<and> (\<forall>src2 c2 nm2. src2 \<noteq> src \<and> fmlookup (files f) src2 = Some c2 \<longrightarrow>
                (\<exists>t2 f2. safe_rename (snd (safe_rename f src dst nm)) src2 dst nm2 = (Returned t2, f2)
                    \<and> t2 \<noteq> t
                    \<and> fmlookup (files f2) t = Some c
                    \<and> fmlookup (files f2) t2 = Some c2))"
proof -
  from safe_rename_returns [OF assms, of dst nm] obtain t where t:
    "safe_rename f src dst nm =
       (Returned t, f\<lparr>dirs := insert dst (dirs f), files := fmupd t c (fmdrop src (files f))\<rparr>)"
    "fst t = dst" "t |\<notin>| fmdom (files f)" "t \<noteq> src"
    "(dst, rename_name src nm) |\<notin>| fmdom (files f) \<longrightarrow> t = (dst, rename_name src nm)"
    "(dst, rename_name src nm) |\<in>| fmdom (files f) \<longrightarrow>
       (\<exists>k\<ge>1. t = candidate dst (fst (splitext (rename_name src nm)))
                        (snd (splitext (rename_name src nm))) k
          \<and> (\<forall>i. 1 \<le> i \<and> i < k \<longrightarrow>
                candidate dst (fst (splitext (rename_name src nm)))
                  (snd (splitext (rename_name src nm))) i |\<in>| fmdom (files f)))"
    by blast
  let ?f1 = "f\<lparr>dirs := insert dst (dirs f), files := fmupd t c (fmdrop src (files f))\<rparr>"
  have others: "\<forall>p. p \<noteq> src \<and> p \<noteq> t \<longrightarrow>
      fmlookup (files (snd (safe_rename f src dst nm))) p = fmlookup (files f) p"
    by (simp add: t(1))
  have second: "\<forall>src2 c2 nm2. src2 \<noteq> src \<and> fmlookup (files f) src2 = Some c2 \<longrightarrow>
      (\<exists>t2 f2. safe_rename (snd (safe_rename f src dst nm)) src2 dst nm2 = (Returned t2, f2)
          \<and> t2 \<noteq> t \<and> fmlookup (files f2) t = Some c \<and> fmlookup (files f2) t2 = Some c2)"
  proof (intro allI impI)
    fix src2 c2 nm2
    assume a: "src2 \<noteq> src \<and> fmlookup (files f) src2 = Some c2"
    then have "src2 |\<in>| fmdom (files f)" by (simp add: fmdomI)
    with t(3) have ne2: "src2 \<noteq> t" by auto
    with a have l2: "fmlookup (files ?f1) src2 = Some c2" by simp
    from safe_rename_returns [OF l2, of dst nm2] obtain t2 where t2:
      "safe_rename ?f1 src2 dst nm2 =
         (Returned t2, ?f1\<lparr>dirs := insert dst (dirs ?f1),
                             files := fmupd t2 c2 (fmdrop src2 (files ?f1))\<rparr>)"
      "t2 |\<notin>| fmdom (files ?f1)"
      by blast
    from t2(2) have "t2 \<noteq> t" by auto
    with t2(1) ne2 show "\<exists>t2 f2. safe_rename (snd (safe_rename f src dst nm)) src2 dst nm2 = (Returned t2, f2)
          \<and> t2 \<noteq> t \<and> fmlookup (files f2) t = Some c \<and> fmlookup (files f2) t2 = Some c2"
      by (simp add: t(1))
  qed
  from t others second show ?thesis by blast
qed

lemmas eval_rename = safe_rename_def Let_def splitext_def find_target.simps candidate_def
  str_nat.simps digit_char_def rename_name_def

theorem safe_rename_never_overwrites_witness:
  "fst (safe_rename fs_example (''up1'', ''a.py'') ''work/running'' None)
     = Returned (''work/running'', ''a_1.py'')
   \<and> fst (safe_rename (snd (safe_rename fs_example (''up1'', ''a.py'') ''work/running'' None))
            (''up2'', ''a.py'') ''work/running'' None)
     = Returned (''work/running'', ''a_2.py'')
   \<and> fmlookup (files fs_example) (''up1'', ''a.py'') = Some ''print(1)''"
  using safe_rename_never_overwrites [of fs_example "(''up1'', ''a.py'')" "''print(1)''" "''work/running''" None]
  by (simp add: fs_example_def eval_rename)

section \<open>Properties of the scheduler\<close>

lemma get_put_job_iff:
  "get_job (put_job js job) i = (if jobid job = i then Some job else get_job js i)"
  by (induction js) auto

lemmas eval_sched = GpuScheduler_init_def setup_dirs_def to_run_dir_def running_dir_def
  complete_dir_def fail_dir_def out_dir_def

text \<open>
  C10.  Whenever \<open>submit_job\<close> returns a job, the job is \<open>QUEUED\<close> with no GPU, no pid
  and score 0, its script lies in \<open>to_run\<close> with the content the source had, and nothing is
  left at the source path.  It returns whenever the source exists, and the script is named
  \<open><job_id>.py\<close> when no file of that name was in \<open>to_run\<close> (the id is a fresh UUID).
\<close>

theorem submit_job_queues:
  "(\<forall>job st'. submit_job st src user vram part q job_id now = (Returned job, st') \<longrightarrow>
       status job = ''QUEUED'' \<and> assigned_gpu job = None \<and> pid job = None
     \<and> priority_score job = 0 \<and> jobid job = job_id
     \<and> fst (script_path job) = to_run_dir (layout st)
     \<and> fmlookup (files (fsys st')) src = None
     \<and> fmlookup (files (fsys st')) (script_path job) = fmlookup (files (fsys st)) src
     \<and> get_job (jobs st') job_id = Some job)
   \<and> (fmlookup (files (fsys st)) src \<noteq> None \<longrightarrow>
        (\<exists>job st'. submit_job st src user vram part q job_id now = (Returned job, st')
           \<and> ((to_run_dir (layout st), job_id @ ''.py'') |\<notin>| fmdom (files (fsys st)) \<longrightarrow>
                 script_path job = (to_run_dir (layout st), job_id @ ''.py''))))"
proof -
  have always: "status job = ''QUEUED'' \<and> assigned_gpu job = None \<and> pid job = None
     \<and> priority_score job = 0 \<and> jobid job = job_id
     \<and> fst (script_path job) = to_run_dir (layout st)
     \<and> fmlookup (files (fsys st')) src = None
     \<and> fmlookup (files (fsys st')) (script_path job) = fmlookup (files (fsys st)) src
     \<and> get_job (jobs st') job_id = Some job"
    if r: "submit_job st src user vram part q job_id now = (Returned job, st')" for job st'
  proof (cases "fmlookup (files (fsys st)) src")
    case None
    from safe_rename_raises [OF None] r show ?thesis
      by (simp add: submit_job_def)
  next
    case (Some c)
    from safe_rename_returns [OF Some, of "to_run_dir (layout st)" "Some (job_id @ ''.py'')"]
    obtain t where t: "safe_rename (fsys st) src (to_run_dir (layout st)) (Some (job_id @ ''.py'')) =
        (Returned t, (fsys st)\<lparr>dirs := insert (to_run_dir (layout st)) (dirs (fsys st)),
                          files := fmupd t c (fmdrop src (files (fsys st)))\<rparr>)"
      "fst t = to_run_dir (layout st)" "t \<noteq> src"
      by blast
    from r t Some show ?thesis
      by (auto simp: submit_job_def Let_def add_job_def get_put_job_iff)
  qed
  have returns: "\<exists>job st'. submit_job st src user vram part q job_id now = (Returned job, st')
           \<and> ((to_run_dir (layout st), job_id @ ''.py'') |\<notin>| fmdom (files (fsys st)) \<longrightarrow>
                 script_path job = (to_run_dir (layout st), job_id @ ''.py''))"
    if "fmlookup (files (fsys st)) src \<noteq> None"
  proof -
    from that obtain c where Some: "fmlookup (files (fsys st)) src = Some c" by auto
    from safe_rename_returns [OF Some, of "to_run_dir (layout st)" "Some (job_id @ ''.py'')"]
    obtain t where t: "safe_rename (fsys st) src (to_run_dir (layout st)) (Some (job_id @ ''.py'')) =
        (Returned t, (fsys st)\<lparr>dirs := insert (to_run_dir (layout st)) (dirs (fsys st)),
                          files := fmupd t c (fmdrop src (files (fsys st)))\<rparr>)"
      "(to_run_dir (layout st), job_id @ ''.py'') |\<notin>| fmdom (files (fsys st)) \<longrightarrow>
          t = (to_run_dir (layout st), job_id @ ''.py'')"
      by (auto simp: rename_name_def)
    then show ?thesis
      by (simp add: submit_job_def Let_def)
  qed
  from always returns show ?thesis by blast
qed

theorem submit_job_queues_witness:
  "fmlookup (files (fsys sched_example)) (''uploads'', ''train.py'') \<noteq> None
   \<and> (''work/to_run'', ''j1.py'') |\<notin>| fmdom (files (fsys sched_example))
   \<and> (\<exists>job st'. submit_job sched_example (''uploads'', ''train.py'') ''alice'' 1024
         ''normal'' ''standard'' ''j1'' 5 = (Returned job, st')
         \<and> script_path job = (''work/to_run'', ''j1.py'')
         \<and> status job = ''QUEUED'' \<and> assigned_gpu job = None \<and> pid job = None
         \<and> priority_score job = 0
         \<and> fmlookup (files (fsys st')) (''uploads'', ''train.py'') = None
         \<and> fmlookup (files (fsys st')) (''work/to_run'', ''j1.py'') = Some ''print(1)'')"
  using submit_job_queues [of sched_example "(''uploads'', ''train.py'')" "''alice''" 1024
          "''normal''" "''standard''" "''j1''" 5]
  by (simp add: sched_example_def eval_sched submit_job_def eval_rename add_job_def)

text \<open>
  C5, as the code has it.  \<open>_wait_and_finalize\<close> adds \<open>now - start_time\<close> (times one GPU)
  to the user's usage whatever the return code and whether or not the rename succeeds.
  With the script at its recorded path, exit code 0 moves it into \<open>complete\<close> and stores
  the job as \<open>COMPLETED\<close>; any other code moves it into \<open>fail\<close> and stores the job as
  \<open>FAILED\<close>.  With no file at the recorded path the rename raises
  \<open>FileNotFoundError\<close>: the usage has been charged, the job store is left as it was, and
  no file is touched.
\<close>

theorem finalize_charges_and_classifies:
  "usage_tracker (snd (wait_and_finalize st job rc start_time now))
      = add_usage (usage_tracker st) (user_id job) (now - start_time) 1
   \<and> (fmlookup (files (fsys st)) (script_path job) = Some c \<longrightarrow>
        (\<exists>st' p. wait_and_finalize st job rc start_time now = (Returned (), st')
           \<and> fmlookup (files (fsys st')) (script_path job) = None
           \<and> fmlookup (files (fsys st')) p = Some c
           \<and> p |\<notin>| fmdom (files (fsys st))
           \<and> (rc = 0 \<longrightarrow> fst p = complete_dir (layout st)
                 \<and> get_job (jobs st') (jobid job) = Some (job\<lparr>status := ''COMPLETED''\<rparr>))
           \<and> (rc \<noteq> 0 \<longrightarrow> fst p = fail_dir (layout st)
                 \<and> get_job (jobs st') (jobid job) = Some (job\<lparr>status := ''FAILED''\<rparr>))))
   \<and> (fmlookup (files (fsys st)) (script_path job) = None \<longrightarrow>
        fst (wait_and_finalize st job rc start_time now) = Raised FileNotFoundError
        \<and> jobs (snd (wait_and_finalize st job rc start_time now)) = jobs st
        \<and> files (fsys (snd (wait_and_finalize st job rc start_time now))) = files (fsys st))"
proof -
  have charge: "usage_tracker (snd (wait_and_finalize st job rc start_time now))
      = add_usage (usage_tracker st) (user_id job) (now - start_time) 1"
    by (simp add: wait_and_finalize_def Let_def split: prod.splits outcome.splits)
  have classify: "\<exists>st' p. wait_and_finalize st job rc start_time now = (Returned (), st')
           \<and> fmlookup (files (fsys st')) (script_path job) = None
           \<and> fmlookup (files (fsys st')) p = Some c
           \<and> p |\<notin>| fmdom (files (fsys st))
           \<and> (rc = 0 \<longrightarrow> fst p = complete_dir (layout st)
                 \<and> get_job (jobs st') (jobid job) = Some (job\<lparr>status := ''COMPLETED''\<rparr>))
           \<and> (rc \<noteq> 0 \<longrightarrow> fst p = fail_dir (layout st)
                 \<and> get_job (jobs st') (jobid job) = Some (job\<lparr>status := ''FAILED''\<rparr>))"
    if Some: "fmlookup (files (fsys st)) (script_path job) = Some c"
  proof -
    let ?d = "if rc = 0 then complete_dir (layout st) else fail_dir (layout st)"
    from safe_rename_returns [OF Some, of ?d None]
    obtain t where t: "safe_rename (fsys st) (script_path job) ?d None =
        (Returned t, (fsys st)\<lparr>dirs := insert ?d (dirs (fsys st)),
                          files := fmupd t c (fmdrop (script_path job) (files (fsys st)))\<rparr>)"
      "fst t = ?d" "t \<noteq> script_path job" "t |\<notin>| fmdom (files (fsys st))"
      by blast
    show ?thesis
    proof (cases "rc = 0")
      case True
      with t show ?thesis
        by (intro exI [of _ "snd (wait_and_finalize st job rc start_time now)"] exI [of _ t])
           (simp add: wait_and_finalize_def Let_def update_job_def get_put_job_iff)
    next
      case False
      with t show ?thesis
        by (intro exI [of _ "snd (wait_and_finalize st job rc start_time now)"] exI [of _ t])
           (simp add: wait_and_finalize_def Let_def update_job_def get_put_job_iff)
    qed
  qed
  have missing: "fst (wait_and_finalize st job rc start_time now) = Raised FileNotFoundError
        \<and> jobs (snd (wait_and_finalize st job rc start_time now)) = jobs st
        \<and> files (fsys (snd (wait_and_finalize st job rc start_time now))) = files (fsys st)"
    if None: "fmlookup (files (fsys st)) (script_path job) = None"
    using None by (simp add: wait_and_finalize_def Let_def safe_rename_raises)
  from charge classify missing show ?thesis by blast
qed

theorem finalize_charges_and_classifies_witness:
  "fmlookup (files (fsys sched_running_example)) (script_path job_running_example)
      = Some ''print(1)''
   \<and> get_usage (usage_tracker
         (snd (wait_and_finalize sched_running_example job_running_example 1 10 25))) ''alice'' = 15
   \<and> get_job (jobs (snd (wait_and_finalize sched_running_example job_running_example 1 10 25)))
         ''j1'' = Some (job_running_example\<lparr>status := ''FAILED''\<rparr>)
   \<and> fmlookup (files (fsys
         (snd (wait_and_finalize sched_running_example job_running_example 1 10 25))))
         (''work/fail'', ''j1.py'') = Some ''print(1)''
   \<and> get_job (jobs (snd (wait_and_finalize sched_running_example job_running_example 0 10 25)))
         ''j1'' = Some (job_running_example\<lparr>status := ''COMPLETED''\<rparr>)
   \<and> fmlookup (files (fsys
         (snd (wait_and_finalize sched_running_example job_running_example 0 10 25))))
         (''work/complete'', ''j1.py'') = Some ''print(1)''
   \<and> fmlookup (files (fsys sched_moved_example)) (script_path job_running_example) = None
   \<and> fst (wait_and_finalize sched_moved_example job_running_example 1 10 25)
        = Raised FileNotFoundError
   \<and> jobs (snd (wait_and_finalize sched_moved_example job_running_example 1 10 25))
        = [job_running_example]"
  using finalize_charges_and_classifies
          [of sched_running_example job_running_example 1 10 25 "''print(1)''"]
        finalize_charges_and_classifies
          [of sched_running_example job_running_example 0 10 25 "''print(1)''"]
        finalize_charges_and_classifies
          [of sched_moved_example job_running_example 1 10 25 "''print(1)''"]
  by (simp add: sched_moved_example_def sched_running_example_def job_running_example_def
        wait_and_finalize_def eval_rename eval_sched update_job_def add_usage_def get_usage_def)

text \<open>
  C5 as stated fails when the script of the running job is not at its recorded path: the
  child has terminated with exit code 0 and the user has been charged its 15 seconds, but
  the rename raises, nothing arrives in \<open>complete\<close>, and the stored job stays \<open>RUNNING\<close>.
\<close>

theorem finalize_missing_script_stays_running:
  "fst (wait_and_finalize sched_moved_example job_running_example 0 10 25)
      = Raised FileNotFoundError
   \<and> get_usage (usage_tracker
         (snd (wait_and_finalize sched_moved_example job_running_example 0 10 25))) ''alice'' = 15
   \<and> map_option status
         (get_job (jobs (snd (wait_and_finalize sched_moved_example job_running_example 0 10 25)))
            ''j1'') = Some ''RUNNING''
   \<and> fmlookup (files (fsys
         (snd (wait_and_finalize sched_moved_example job_running_example 0 10 25))))
         (''work/complete'', ''j1.py'') = None"
  by (simp add: sched_moved_example_def sched_running_example_def job_running_example_def
        wait_and_finalize_def eval_rename eval_sched update_job_def add_usage_def get_usage_def)

text \<open>
  C7, as the code has it.  Starting the scheduler creates the directories and nothing else:
  the job store and the ledger are empty, every file stays where it was, and an iteration
  of the loop over the empty store changes nothing.  There is no recovery pass.
\<close>

theorem restart_recovers_nothing:
  "jobs (GpuScheduler_init root_dir f) = []
   \<and> usage_tracker (GpuScheduler_init root_dir f) = Map.empty
   \<and> files (fsys (GpuScheduler_init root_dir f)) = files f
   \<and> run_forever_step (GpuScheduler_init root_dir f) metrics clk new_pid
        = (Returned (), GpuScheduler_init root_dir f)"
  by (simp add: GpuScheduler_init_def setup_dirs_def run_forever_step_def pick_next_job_def
        queued_def)

text \<open>
  C7 as stated fails: a script left in \<open>running/\<close> is still there after the restart and
  after an iteration of the loop, nothing is in \<open>fail/\<close>, and no job is \<open>FAILED\<close>.
\<close>

theorem restart_leaves_running_script:
  "fmlookup (files fs_crashed) (''work/running'', ''j1.py'') = Some ''print(1)''
   \<and> fmlookup (files (fsys (GpuScheduler_init ''work'' fs_crashed))) (''work/running'', ''j1.py'')
        = Some ''print(1)''
   \<and> fmlookup (files (fsys (GpuScheduler_init ''work'' fs_crashed))) (''work/fail'', ''j1.py'')
        = None
   \<and> get_job (jobs (GpuScheduler_init ''work'' fs_crashed)) ''j1'' = None
   \<and> filter (\<lambda>j. status j = ''FAILED'') (jobs (GpuScheduler_init ''work'' fs_crashed)) = []
   \<and> snd (run_forever_step (GpuScheduler_init ''work'' fs_crashed) virtual_gpus (\<lambda>k. 0) 1)
        = GpuScheduler_init ''work'' fs_crashed"
  by (simp add: fs_crashed_def GpuScheduler_init_def setup_dirs_def run_forever_step_def
        pick_next_job_def queued_def)

section \<open>Properties of the priority\<close>

lemma age_factor_range: "created_at job \<le> now \<Longrightarrow> 0 \<le> age_factor now job \<and> age_factor now job \<le> 1"
  by (simp add: age_factor_def time_waiting_def max_age_sec_def)

lemma fs_factor_range:
  "0 \<le> get_usage u (user_id job) \<Longrightarrow> 0 < fairshare_decay_norm cfg \<Longrightarrow>
     0 < fs_factor cfg u job \<and> fs_factor cfg u job \<le> 1"
proof -
  assume a: "0 \<le> get_usage u (user_id job)" "0 < fairshare_decay_norm cfg"
  then have "0 \<le> get_usage u (user_id job) / fairshare_decay_norm cfg" by simp
  then show ?thesis by (simp add: fs_factor_def add_pos_nonneg)
qed

lemma size_factor_range: "0 \<le> vram_required job \<Longrightarrow> 0 \<le> size_factor job \<and> size_factor job \<le> 1"
  by (simp add: size_factor_def max_vram_ref_def)

lemma default_tables_unit:
  "unit_table default_partitions" "unit_table default_qos_levels"
  "unit_table default_PARTITION_SCORES" "unit_table default_QOS_SCORES"
  by (auto simp: unit_table_def default_partitions_def default_qos_levels_def
        default_PARTITION_SCORES_def default_QOS_SCORES_def split: if_splits)

lemma engine_age_factor_range:
  "0 < MAX_AGE_SEC cfg \<Longrightarrow> 0 \<le> wait_time_sec now0 now job \<Longrightarrow>
     0 \<le> engine_age_factor cfg now0 now job \<and> engine_age_factor cfg now0 now job \<le> 1"
  by (simp add: engine_age_factor_def)

lemma engine_fs_factor_range:
  "0 \<le> tracker_get_usage u (getd (d_user job) ''unknown'') \<Longrightarrow> 0 < FAIRSHARE_DECAY_NORM cfg \<Longrightarrow>
     0 < engine_fs_factor cfg u job \<and> engine_fs_factor cfg u job \<le> 1"
proof -
  assume a: "0 \<le> tracker_get_usage u (getd (d_user job) ''unknown'')" "0 < FAIRSHARE_DECAY_NORM cfg"
  then have "0 \<le> tracker_get_usage u (getd (d_user job) ''unknown'') / FAIRSHARE_DECAY_NORM cfg" by simp
  then show ?thesis by (simp add: engine_fs_factor_def add_pos_nonneg)
qed

lemma engine_size_factor_range:
  "0 < MAX_VRAM_REF cfg \<Longrightarrow> 0 \<le> getd (d_vram_gb job) 2 \<Longrightarrow>
     0 \<le> engine_size_factor cfg job \<and> engine_size_factor cfg job \<le> 1"
  by (simp add: engine_size_factor_def)

lemma slurm_formula:
  "fairshare_decay_norm cfg \<noteq> 0 \<Longrightarrow>
   1 + get_usage u (user_id job) / fairshare_decay_norm cfg \<noteq> 0 \<Longrightarrow>
     \<exists>job'. calculate_slurm_priority cfg u t job =
         Inr (weight_age cfg * age_factor t job + weight_fairshare cfg * fs_factor cfg u job
              + weight_job_size cfg * size_factor job + weight_partition cfg * part_factor cfg job
              + weight_qos cfg * qos_factor cfg job, job')"
  by (simp add: calculate_slurm_priority_def slurm_priority_def Let_def)

lemma part_factor_range:
  "unit_table (partitions cfg) \<Longrightarrow> 0 \<le> part_factor cfg job \<and> part_factor cfg job \<le> 1"
  unfolding part_factor_def unit_table_def
  by (cases "partitions cfg (partition_name job)") auto

lemma qos_factor_range:
  "unit_table (qos_levels cfg) \<Longrightarrow> 0 \<le> qos_factor cfg job \<and> qos_factor cfg job \<le> 1"
  unfolding qos_factor_def unit_table_def
  by (cases "qos_levels cfg (qos job)") auto

lemma engine_formula:
  "d_submitted_at dj \<noteq> BadStamp \<Longrightarrow> MAX_AGE_SEC pc \<noteq> 0 \<Longrightarrow> FAIRSHARE_DECAY_NORM pc \<noteq> 0 \<Longrightarrow>
   1 + tracker_get_usage ud (getd (d_user dj) ''unknown'') / FAIRSHARE_DECAY_NORM pc \<noteq> 0 \<Longrightarrow>
   MAX_VRAM_REF pc \<noteq> 0 \<Longrightarrow>
     calculate_priority pc ud t0 t dj =
       Inr (WEIGHT_AGE pc * engine_age_factor pc t0 t dj
            + WEIGHT_FAIRSHARE pc * engine_fs_factor pc ud dj
            + WEIGHT_JOB_SIZE pc * engine_size_factor pc dj
            + WEIGHT_PARTITION pc * engine_part_factor pc dj
            + WEIGHT_QOS pc * engine_qos_factor pc dj)"
  by (simp add: calculate_priority_def engine_priority_def)

lemma engine_part_factor_range:
  "unit_table (PARTITION_SCORES pc) \<Longrightarrow>
     0 \<le> engine_part_factor pc dj \<and> engine_part_factor pc dj \<le> 1"
  unfolding engine_part_factor_def unit_table_def
  by (cases "PARTITION_SCORES pc (engine_partition dj)") auto

lemma engine_qos_factor_range:
  "unit_table (QOS_SCORES pc) \<Longrightarrow>
     0 \<le> engine_qos_factor pc dj \<and> engine_qos_factor pc dj \<le> 1"
  unfolding engine_qos_factor_def unit_table_def
  by (cases "QOS_SCORES pc (engine_qos dj)") auto

lemmas eval_prio = calculate_slurm_priority_def slurm_priority_def age_factor_def
  time_waiting_def max_age_sec_def fs_factor_def size_factor_def max_vram_ref_def
  part_factor_def qos_factor_def get_usage_def default_SlurmConfig_def default_partitions_def
  default_qos_levels_def

lemmas eval_lower = lower_def lower_char_def getd_def

lemmas eval_engine = calculate_priority_def engine_priority_def engine_age_factor_def
  wait_time_sec_def engine_fs_factor_def engine_size_factor_def engine_part_factor_def
  engine_qos_factor_def engine_qos_def engine_partition_def tracker_get_usage_def
  default_PriorityConfig_def default_PARTITION_SCORES_def default_QOS_SCORES_def
  eval_lower

text \<open>
  C3, as the code has it.  Both priority functions return the weighted sum of the five
  factors, with the age, fair-share and size factors of the stated shape, and a partition
  or QoS name that the table lacks counts 0.5.  The factors lie in \<open>[0, 1]\<close> when the job
  is not younger than the clock reading, the usage is not negative, the memory request is
  not negative, the normalisation constants are positive and the tables hold values in
  \<open>[0, 1]\<close>, as the default tables do.
\<close>

theorem priority_formula_and_ranges:
  "(fairshare_decay_norm cfg \<noteq> 0 \<and> 1 + get_usage u (user_id job) / fairshare_decay_norm cfg \<noteq> 0 \<longrightarrow>
      (\<exists>job'. calculate_slurm_priority cfg u t job =
         Inr (weight_age cfg * age_factor t job + weight_fairshare cfg * fs_factor cfg u job
              + weight_job_size cfg * size_factor job + weight_partition cfg * part_factor cfg job
              + weight_qos cfg * qos_factor cfg job, job')))
   \<and> age_factor t job = min ((t - created_at job) / (7 * 24 * 3600)) 1
   \<and> fs_factor cfg u job = 1 / (1 + get_usage u (user_id job) / fairshare_decay_norm cfg)
   \<and> size_factor job = min (real_of_int (vram_required job) / (80 * 1024 ^ 3)) 1
   \<and> (created_at job \<le> t \<longrightarrow> 0 \<le> age_factor t job \<and> age_factor t job \<le> 1)
   \<and> (0 \<le> get_usage u (user_id job) \<and> 0 < fairshare_decay_norm cfg \<longrightarrow>
         0 \<le> fs_factor cfg u job \<and> fs_factor cfg u job \<le> 1)
   \<and> (0 \<le> vram_required job \<longrightarrow> 0 \<le> size_factor job \<and> size_factor job \<le> 1)
   \<and> (unit_table (partitions cfg) \<longrightarrow> 0 \<le> part_factor cfg job \<and> part_factor cfg job \<le> 1)
   \<and> (unit_table (qos_levels cfg) \<longrightarrow> 0 \<le> qos_factor cfg job \<and> qos_factor cfg job \<le> 1)
   \<and> (partitions cfg (partition_name job) = None \<longrightarrow> part_factor cfg job = 0.5)
   \<and> (qos_levels cfg (qos job) = None \<longrightarrow> qos_factor cfg job = 0.5)
   \<and> unit_table (partitions default_SlurmConfig) \<and> unit_table (qos_levels default_SlurmConfig)
   \<and> 0 < fairshare_decay_norm default_SlurmConfig
   \<and> (d_submitted_at dj \<noteq> BadStamp \<and> MAX_AGE_SEC pc \<noteq> 0 \<and> FAIRSHARE_DECAY_NORM pc \<noteq> 0
        \<and> 1 + tracker_get_usage ud (getd (d_user dj) ''unknown'') / FAIRSHARE_DECAY_NORM pc \<noteq> 0
        \<and> MAX_VRAM_REF pc \<noteq> 0 \<longrightarrow>
        calculate_priority pc ud t0 t dj =
          Inr (WEIGHT_AGE pc * engine_age_factor pc t0 t dj
               + WEIGHT_FAIRSHARE pc * engine_fs_factor pc ud dj
               + WEIGHT_JOB_SIZE pc * engine_size_factor pc dj
               + WEIGHT_PARTITION pc * engine_part_factor pc dj
               + WEIGHT_QOS pc * engine_qos_factor pc dj))
   \<and> engine_age_factor pc t0 t dj = min (wait_time_sec t0 t dj / MAX_AGE_SEC pc) 1
   \<and> engine_fs_factor pc ud dj =
        1 / (1 + tracker_get_usage ud (getd (d_user dj) ''unknown'') / FAIRSHARE_DECAY_NORM pc)
   \<and> engine_size_factor pc dj = min (real_of_int (getd (d_vram_gb dj) 2) / MAX_VRAM_REF pc) 1
   \<and> (0 < MAX_AGE_SEC pc \<and> 0 \<le> wait_time_sec t0 t dj \<longrightarrow>
         0 \<le> engine_age_factor pc t0 t dj \<and> engine_age_factor pc t0 t dj \<le> 1)
   \<and> (0 \<le> tracker_get_usage ud (getd (d_user dj) ''unknown'') \<and> 0 < FAIRSHARE_DECAY_NORM pc \<longrightarrow>
         0 \<le> engine_fs_factor pc ud dj \<and> engine_fs_factor pc ud dj \<le> 1)
   \<and> (0 < MAX_VRAM_REF pc \<and> 0 \<le> getd (d_vram_gb dj) 2 \<longrightarrow>
         0 \<le> engine_size_factor pc dj \<and> engine_size_factor pc dj \<le> 1)
   \<and> (unit_table (PARTITION_SCORES pc) \<longrightarrow>
         0 \<le> engine_part_factor pc dj \<and> engine_part_factor pc dj \<le> 1)
   \<and> (unit_table (QOS_SCORES pc) \<longrightarrow>
         0 \<le> engine_qos_factor pc dj \<and> engine_qos_factor pc dj \<le> 1)
   \<and> (PARTITION_SCORES pc (engine_partition dj) = None \<longrightarrow> engine_part_factor pc dj = 0.5)
   \<and> (QOS_SCORES pc (engine_qos dj) = None \<longrightarrow> engine_qos_factor pc dj = 0.5)
   \<and> unit_table (PARTITION_SCORES default_PriorityConfig)
   \<and> unit_table (QOS_SCORES default_PriorityConfig)"
proof -
  have shapes: "age_factor t job = min ((t - created_at job) / (7 * 24 * 3600)) 1"
    "fs_factor cfg u job = 1 / (1 + get_usage u (user_id job) / fairshare_decay_norm cfg)"
    "size_factor job = min (real_of_int (vram_required job) / (80 * 1024 ^ 3)) 1"
    by (simp_all add: age_factor_def time_waiting_def max_age_sec_def fs_factor_def
          size_factor_def max_vram_ref_def)
  have fallback: "partitions cfg (partition_name job) = None \<longrightarrow> part_factor cfg job = 0.5"
    "qos_levels cfg (qos job) = None \<longrightarrow> qos_factor cfg job = 0.5"
    by (simp_all add: part_factor_def qos_factor_def)
  have dflt: "unit_table (partitions default_SlurmConfig)" "unit_table (qos_levels default_SlurmConfig)"
    "0 < fairshare_decay_norm default_SlurmConfig"
    by (simp_all add: default_SlurmConfig_def default_tables_unit)
  have eshapes: "engine_age_factor pc t0 t dj = min (wait_time_sec t0 t dj / MAX_AGE_SEC pc) 1"
    "engine_fs_factor pc ud dj =
        1 / (1 + tracker_get_usage ud (getd (d_user dj) ''unknown'') / FAIRSHARE_DECAY_NORM pc)"
    "engine_size_factor pc dj = min (real_of_int (getd (d_vram_gb dj) 2) / MAX_VRAM_REF pc) 1"
    by (simp_all add: engine_age_factor_def engine_fs_factor_def engine_size_factor_def)
  have efallback:
    "PARTITION_SCORES pc (engine_partition dj) = None \<longrightarrow> engine_part_factor pc dj = 0.5"
    "QOS_SCORES pc (engine_qos dj) = None \<longrightarrow> engine_qos_factor pc dj = 0.5"
    by (simp_all add: engine_part_factor_def engine_qos_factor_def)
  have edflt: "unit_table (PARTITION_SCORES default_PriorityConfig)"
    "unit_table (QOS_SCORES default_PriorityConfig)"
    by (simp_all add: default_PriorityConfig_def default_tables_unit)
  have sched: "(fairshare_decay_norm cfg \<noteq> 0 \<and> 1 + get_usage u (user_id job) / fairshare_decay_norm cfg \<noteq> 0 \<longrightarrow>
      (\<exists>job'. calculate_slurm_priority cfg u t job =
         Inr (weight_age cfg * age_factor t job + weight_fairshare cfg * fs_factor cfg u job
              + weight_job_size cfg * size_factor job + weight_partition cfg * part_factor cfg job
              + weight_qos cfg * qos_factor cfg job, job')))"
    using slurm_formula [of cfg u job t] by blast
  have eng: "(d_submitted_at dj \<noteq> BadStamp \<and> MAX_AGE_SEC pc \<noteq> 0 \<and> FAIRSHARE_DECAY_NORM pc \<noteq> 0
        \<and> 1 + tracker_get_usage ud (getd (d_user dj) ''unknown'') / FAIRSHARE_DECAY_NORM pc \<noteq> 0
        \<and> MAX_VRAM_REF pc \<noteq> 0 \<longrightarrow>
        calculate_priority pc ud t0 t dj =
          Inr (WEIGHT_AGE pc * engine_age_factor pc t0 t dj
               + WEIGHT_FAIRSHARE pc * engine_fs_factor pc ud dj
               + WEIGHT_JOB_SIZE pc * engine_size_factor pc dj
               + WEIGHT_PARTITION pc * engine_part_factor pc dj
               + WEIGHT_QOS pc * engine_qos_factor pc dj))"
    using engine_formula [of dj pc ud t0 t] by blast
  have r1: "created_at job \<le> t \<longrightarrow> 0 \<le> age_factor t job \<and> age_factor t job \<le> 1"
    using age_factor_range [of job t] by blast
  have r2: "0 \<le> get_usage u (user_id job) \<and> 0 < fairshare_decay_norm cfg \<longrightarrow>
         0 \<le> fs_factor cfg u job \<and> fs_factor cfg u job \<le> 1"
    using fs_factor_range [of u job cfg] by (simp add: less_imp_le)
  have r3: "0 \<le> vram_required job \<longrightarrow> 0 \<le> size_factor job \<and> size_factor job \<le> 1"
    using size_factor_range [of job] by blast
  have r4: "unit_table (partitions cfg) \<longrightarrow> 0 \<le> part_factor cfg job \<and> part_factor cfg job \<le> 1"
    using part_factor_range [of cfg job] by blast
  have r5: "unit_table (qos_levels cfg) \<longrightarrow> 0 \<le> qos_factor cfg job \<and> qos_factor cfg job \<le> 1"
    using qos_factor_range [of cfg job] by blast
  have e1: "0 < MAX_AGE_SEC pc \<and> 0 \<le> wait_time_sec t0 t dj \<longrightarrow>
         0 \<le> engine_age_factor pc t0 t dj \<and> engine_age_factor pc t0 t dj \<le> 1"
    using engine_age_factor_range [of pc t0 t dj] by blast
  have e2: "0 \<le> tracker_get_usage ud (getd (d_user dj) ''unknown'') \<and> 0 < FAIRSHARE_DECAY_NORM pc \<longrightarrow>
         0 \<le> engine_fs_factor pc ud dj \<and> engine_fs_factor pc ud dj \<le> 1"
    using engine_fs_factor_range [of ud dj pc] by (simp add: less_imp_le)
  have e3: "0 < MAX_VRAM_REF pc \<and> 0 \<le> getd (d_vram_gb dj) 2 \<longrightarrow>
         0 \<le> engine_size_factor pc dj \<and> engine_size_factor pc dj \<le> 1"
    using engine_size_factor_range [of pc dj] by blast
  have e4: "unit_table (PARTITION_SCORES pc) \<longrightarrow>
         0 \<le> engine_part_factor pc dj \<and> engine_part_factor pc dj \<le> 1"
    using engine_part_factor_range [of pc dj] by blast
  have e5: "unit_table (QOS_SCORES pc) \<longrightarrow>
         0 \<le> engine_qos_factor pc dj \<and> engine_qos_factor pc dj \<le> 1"
    using engine_qos_factor_range [of pc dj] by blast
  show ?thesis
    by (intro conjI sched shapes r1 r2 r3 r4 r5 fallback dflt eng eshapes e1 e2 e3 e4 e5
          efallback edflt)
qed

theorem priority_formula_and_ranges_witness:
  "created_at job_waiting_example \<le> 302400 \<and> 0 \<le> vram_required job_waiting_example
   \<and> 0 \<le> get_usage [''bob'' \<mapsto> 36000] (user_id job_waiting_example)
   \<and> qos_levels default_SlurmConfig (qos job_waiting_example) = None
   \<and> age_factor 302400 job_waiting_example = 1 / 2
   \<and> fs_factor default_SlurmConfig [''bob'' \<mapsto> 36000] job_waiting_example = 1 / 2
   \<and> size_factor job_waiting_example = 1 / 2
   \<and> part_factor default_SlurmConfig job_waiting_example = 1
   \<and> qos_factor default_SlurmConfig job_waiting_example = 1 / 2
   \<and> fst (projr (calculate_slurm_priority default_SlurmConfig [''bob'' \<mapsto> 36000] 302400
          job_waiting_example)) = 500 + 5000 + 250 + 1000 + 500
   \<and> d_submitted_at doc_waiting_example \<noteq> BadStamp
   \<and> 0 \<le> wait_time_sec 0 302400 doc_waiting_example
   \<and> 0 \<le> getd (d_vram_gb doc_waiting_example) 2
   \<and> PARTITION_SCORES default_PriorityConfig (engine_partition doc_waiting_example) = None
   \<and> engine_qos doc_waiting_example = ''hil''
   \<and> calculate_priority default_PriorityConfig [''bob'' \<mapsto> 10] 0 302400 doc_waiting_example
        = Inr (500 + 5000 + 250 + 500 + 10000)"
  using priority_formula_and_ranges [of default_SlurmConfig "[''bob'' \<mapsto> 36000]"
          job_waiting_example 302400 doc_waiting_example default_PriorityConfig
          "[''bob'' \<mapsto> 10]" 0]
        default_tables_unit
  by (simp add: job_waiting_example_def doc_waiting_example_def eval_prio eval_engine)

text \<open>
  C3 as stated fails: with an empty ledger, a job that asks for a negative amount of
  memory is scored with a negative size factor, and a job read before its creation time
  has a negative age factor.
\<close>

theorem size_factor_negative:
  "get_usage Map.empty (user_id job_negative_vram) = 0
   \<and> size_factor job_negative_vram = - 1 / 80
   \<and> size_factor job_negative_vram < 0
   \<and> age_factor (- 604800) job_negative_vram = - 1
   \<and> fst (projr (calculate_slurm_priority default_SlurmConfig Map.empty 0 job_negative_vram))
       = 10000 + 500 * (- 1 / 80) + 1000 * 0.5 + 1000 * 0.5"
  by (simp add: job_negative_vram_def size_factor_def max_vram_ref_def get_usage_def
        age_factor_def time_waiting_def max_age_sec_def calculate_slurm_priority_def
        slurm_priority_def fs_factor_def part_factor_def qos_factor_def default_SlurmConfig_def
        default_partitions_def default_qos_levels_def Let_def)










section \<open>One iteration of the scheduler loop\<close>


lemma calculate_keeps:
  "calculate_slurm_priority cfg u t j = Inr (p, j') \<Longrightarrow>
     status j' = status j \<and> jobid j' = jobid j \<and> vram_required j' = vram_required j
     \<and> script_path j' = script_path j"
  by (auto simp: calculate_slurm_priority_def Let_def split: if_splits)

lemma score_candidates_keeps:
  "score_candidates cfg u clk k js = (e, js') \<Longrightarrow>
     map status js' = map status js \<and> map jobid js' = map jobid js"
proof (induction js arbitrary: k e js')
  case Nil
  then show ?case by simp
next
  case (Cons j js)
  show ?case
  proof (cases "status j = ''QUEUED''")
    case False
    with Cons.prems obtain e1 js1 where r: "score_candidates cfg u clk k js = (e1, js1)"
      "js' = j # js1"
      by (auto split: prod.splits)
    from Cons.IH [OF r(1)] r(2) show ?thesis by simp
  next
    case True
    show ?thesis
    proof (cases "calculate_slurm_priority cfg u (clk k) j")
      case (Inl err)
      with True Cons.prems show ?thesis by auto
    next
      case (Inr pj)
      obtain p j1 where pj: "pj = (p, j1)" by (cases pj)
      with True Inr Cons.prems obtain e1 js1 where
        r: "score_candidates cfg u clk (k + 1) js = (e1, js1)"
        "js' = j1\<lparr>priority_score := p\<rparr> # js1"
        by (auto split: prod.splits)
      from Cons.IH [OF r(1)] r(2) calculate_keeps [of cfg u "clk k" j p j1] Inr pj
      show ?thesis by simp
    qed
  qed
qed

lemma pick_next_job_keeps:
  "pick_next_job st clk = (r, st1) \<Longrightarrow>
     map status (jobs st1) = map status (jobs st) \<and> map jobid (jobs st1) = map jobid (jobs st)
     \<and> fsys st1 = fsys st \<and> layout st1 = layout st \<and> usage_tracker st1 = usage_tracker st"
proof -
  assume a: "pick_next_job st clk = (r, st1)"
  obtain e js' where sc: "score_candidates (config st) (usage_tracker st) clk 0 (jobs st) = (e, js')"
    by (cases "score_candidates (config st) (usage_tracker st) clk 0 (jobs st)")
  from score_candidates_keeps [OF sc] a sc show ?thesis
    by (auto simp: pick_next_job_def split: if_splits option.splits list.splits)
qed


lemma put_job_members:
  "j \<in> set (put_job js job) \<Longrightarrow> j \<in> set js \<or> j = job"
  by (induction js) (auto split: if_splits)

lemma put_job_running:
  "length (filter (\<lambda>j. status j = ''RUNNING'') (put_job js job))
     \<le> length (filter (\<lambda>j. status j = ''RUNNING'') js) + 1"
  by (induction js) auto

lemma launch_job_effect:
  assumes "launch_job st1 metrics new_pid nxt = (r, st')"
  shows "(find_available_gpu metrics (jobs st1) (vram_required nxt) = None \<longrightarrow>
            r = Returned () \<and> st' = st1)
         \<and> (\<forall>j\<in>set (jobs st'). j \<in> set (jobs st1)
               \<or> (jobid j = jobid nxt \<and> status j = ''RUNNING''))
         \<and> running_count st' \<le> running_count st1 + 1"
proof (cases "find_available_gpu metrics (jobs st1) (vram_required nxt)")
  case None
  with assms show ?thesis by (simp add: launch_job_def)
next
  case (Some g)
  show ?thesis
  proof (cases "fmlookup (files (fsys st1)) (script_path nxt)")
    case None
    from safe_rename_raises [OF None] Some assms show ?thesis
      by (auto simp: launch_job_def running_count_def)
  next
    case (Some c)
    from safe_rename_returns [OF Some, of "running_dir (layout st1)" None]
    obtain t where t: "safe_rename (fsys st1) (script_path nxt) (running_dir (layout st1)) None =
        (Returned t, (fsys st1)\<lparr>dirs := insert (running_dir (layout st1)) (dirs (fsys st1)),
                          files := fmupd t c (fmdrop (script_path nxt) (files (fsys st1)))\<rparr>)"
      by blast
    let ?job' = "nxt\<lparr>script_path := t, status := ''RUNNING'', assigned_gpu := Some g,
                      pid := Some new_pid\<rparr>"
    from assms \<open>find_available_gpu metrics (jobs st1) (vram_required nxt) = Some g\<close> t
    have js: "jobs st' = put_job (jobs st1) ?job'"
      by (auto simp: launch_job_def Let_def update_job_def)
    have m: "\<forall>j\<in>set (jobs st'). j \<in> set (jobs st1) \<or> (jobid j = jobid nxt \<and> status j = ''RUNNING'')"
      unfolding js
    proof
      fix j
      assume "j \<in> set (put_job (jobs st1) ?job')"
      then have "j \<in> set (jobs st1) \<or> j = ?job'" by (rule put_job_members)
      then show "j \<in> set (jobs st1) \<or> (jobid j = jobid nxt \<and> status j = ''RUNNING'')"
        by auto
    qed
    have c: "running_count st' \<le> running_count st1 + 1"
      unfolding running_count_def js by (rule put_job_running)
    from m c \<open>find_available_gpu metrics (jobs st1) (vram_required nxt) = Some g\<close>
    show ?thesis by simp
  qed
qed

lemma running_count_status:
  "map status (jobs a) = map status (jobs b) \<Longrightarrow> running_count a = running_count b"
proof -
  assume "map status (jobs a) = map status (jobs b)"
  then have "length (filter (\<lambda>s. s = ''RUNNING'') (map status (jobs a)))
           = length (filter (\<lambda>s. s = ''RUNNING'') (map status (jobs b)))" by simp
  then show ?thesis by (simp add: running_count_def filter_map comp_def)
qed

lemma step_running_count:
  "running_count (snd (run_forever_step st metrics clk new_pid)) \<le> running_count st + 1"
proof -
  obtain r st1 where p: "pick_next_job st clk = (r, st1)" by (cases "pick_next_job st clk")
  from pick_next_job_keeps [OF p] have rc: "running_count st1 = running_count st"
    by (intro running_count_status) simp
  show ?thesis
  proof (cases r)
    case (Raised e)
    with p rc show ?thesis by (simp add: run_forever_step_def)
  next
    case (Returned o1)
    show ?thesis
    proof (cases o1)
      case None
      with p rc Returned show ?thesis by (simp add: run_forever_step_def)
    next
      case (Some nxt)
      obtain r' st' where l: "launch_job st1 metrics new_pid nxt = (r', st')"
        by (cases "launch_job st1 metrics new_pid nxt")
      from launch_job_effect [OF l] rc p Returned Some l show ?thesis
        by (simp add: run_forever_step_def)
    qed
  qed
qed

lemmas eval_step = run_forever_step_def pick_next_job_def queued_def launch_job_def
  find_available_gpu_def update_job_def start_process_def running_count_def
  sched_with_def queued_job_def virtual_gpus_def gpu_idle_example_def
















text \<open>
  C1 as stated fails for \<open>GpuScheduler\<close>, which has no cap: with a GPU that reports no
  memory in use, three iterations admit three jobs.
\<close>

theorem three_jobs_running:
  "running_count sched_three_example = 0
   \<and> running_count
       (snd (run_forever_step
         (snd (run_forever_step
           (snd (run_forever_step sched_three_example [gpu_idle_example] (\<lambda>k. 100) 1))
           [gpu_idle_example] (\<lambda>k. 101) 2))
         [gpu_idle_example] (\<lambda>k. 102) 3)) = 3
   \<and> \<not> (3 \<le> MAX_CONCURRENT)"
  by (simp add: sched_three_example_def eval_step eval_prio eval_rename eval_sched MAX_CONCURRENT_def)

section \<open>The cap of the daemon\<close>

lemma complete_loop_length: "length (snd (complete_loop now es)) = length es"
  by (induction es) (auto simp: Let_def split: prod.splits)

lemma complete_loop_count:
  "d_running_count (snd (complete_loop now es)) \<le> d_running_count es"
proof (induction es)
  case Nil
  then show ?case by simp
next
  case (Cons j es)
  then show ?case
    by (auto simp: d_running_count_def Let_def is_due_def split: prod.splits)
qed

lemma filter_update_count:
  "length (filter P (xs[i := x])) \<le> length (filter P xs) + 1"
proof (induction xs arbitrary: i)
  case Nil
  then show ?case by simp
next
  case (Cons y ys)
  show ?case
  proof (cases i)
    case 0
    then show ?thesis by simp
  next
    case (Suc n)
    with Cons [of n] show ?thesis by simp
  qed
qed

lemma admit_loop_count:
  "int (d_running_count (snd (admit_loop now s xs es))) \<le> int (d_running_count es) + max s 0"
proof (induction xs arbitrary: s es)
  case Nil
  then show ?case by simp
next
  case (Cons x xs)
  obtain i p where x: "x = (i, p)" by (cases x)
  let ?es' = "es[i := start_job now p (es ! i)]"
  have one: "int (d_running_count ?es') \<le> int (d_running_count es) + 1"
  proof -
    have "length (filter (\<lambda>j. d_status j = Some ''RUNNING'') ?es')
        \<le> length (filter (\<lambda>j. d_status j = Some ''RUNNING'') es) + 1"
      by (rule filter_update_count)
    then show ?thesis by (simp add: d_running_count_def)
  qed
  show ?case
  proof (cases "s \<le> 0")
    case True
    with x show ?thesis by simp
  next
    case False
    show ?thesis
    proof (cases "d_job_id (es ! i) = None")
      case True
      with False x one show ?thesis by (simp add: Let_def)
    next
      case nk: False
      from Cons [of "s - 1" ?es'] one False
      have "int (d_running_count (snd (admit_loop now (s - 1) xs ?es'))) \<le> int (d_running_count es) + max s 0"
        by simp
      moreover from nk obtain y where "d_job_id (es ! i) = Some y" by auto
      ultimately show ?thesis using False x by (simp add: Let_def)
    qed
  qed
qed

lemma process_jobs_cap:
  "int (d_running_count (snd (process_jobs rnd now clk es)))
     \<le> max MAX_CONCURRENT (int (d_running_count es))"
proof (cases "es = []")
  case True
  then show ?thesis by (simp add: process_jobs_def MAX_CONCURRENT_def d_running_count_def)
next
  case False
  obtain e es1 where c: "complete_loop now es = (e, es1)" by (cases "complete_loop now es")
  from complete_loop_count [of now es] c have le: "d_running_count es1 \<le> d_running_count es" by simp
  show ?thesis
  proof (cases e)
    case (Some err)
    with False c le show ?thesis by (simp add: process_jobs_def)
  next
    case None
    show ?thesis
    proof (cases "MAX_CONCURRENT - int (d_running_count es1) \<le> 0")
      case True
      with False c None le show ?thesis by (simp add: process_jobs_def)
    next
      case slots: False
      from admit_loop_count [of now "MAX_CONCURRENT - int (d_running_count es1)"
             "sort_key (\<lambda>(i, p). - p) (pending_scored rnd clk es1)" es1] slots
      have "int (d_running_count (snd (admit_loop now (MAX_CONCURRENT - int (d_running_count es1))
              (sort_key (\<lambda>(i, p). - p) (pending_scored rnd clk es1)) es1))) \<le> MAX_CONCURRENT"
        by simp
      with False c None slots show ?thesis by (simp add: process_jobs_def Let_def)
    qed
  qed
qed

lemma process_jobs_full:
  "MAX_CONCURRENT \<le> int (d_running_count (snd (complete_loop now es))) \<Longrightarrow>
     snd (process_jobs rnd now clk es) = snd (complete_loop now es)"
  by (cases "complete_loop now es") (auto simp: process_jobs_def split: option.splits)

lemma reachable_cap: "reachable es \<Longrightarrow> int (d_running_count es) \<le> MAX_CONCURRENT"
proof (induction rule: reachable.induct)
  case start
  then show ?case by (simp add: d_running_count_def MAX_CONCURRENT_def)
next
  case (submit entries job)
  then show ?case by (simp add: d_running_count_def)
next
  case (pass entries rnd now clk)
  with process_jobs_cap [of rnd now clk entries] show ?case by simp
qed

lemma virtual_gpu_busy:
  "filter (\<lambda>j. status j = ''RUNNING'') js \<noteq> [] \<Longrightarrow> find_available_gpu virtual_gpus js vram = None"
  by (simp add: find_available_gpu_def virtual_gpus_def)

lemma virtual_step_cap:
  assumes "running_count st \<le> 1"
  shows "running_count (snd (run_forever_step st virtual_gpus clk new_pid)) \<le> 1"
proof (cases "running_count st = 0")
  case True
  with step_running_count [of st virtual_gpus clk new_pid] show ?thesis by simp
next
  case False
  with assms have one: "running_count st = 1" by simp
  obtain r st1 where p: "pick_next_job st clk = (r, st1)" by (cases "pick_next_job st clk")
  from pick_next_job_keeps [OF p] have rc: "running_count st1 = running_count st"
    by (intro running_count_status) simp
  with one have busy: "filter (\<lambda>j. status j = ''RUNNING'') (jobs st1) \<noteq> []"
    by (auto simp: running_count_def)
  have "running_count (snd (run_forever_step st virtual_gpus clk new_pid)) = running_count st1"
    using p virtual_gpu_busy [OF busy]
    by (auto simp: run_forever_step_def launch_job_def split: outcome.splits option.splits)
  with rc one show ?thesis by simp
qed

text \<open>
  C1, as the code has it.  The daemon keeps the cap: no state the job files reach under
  submissions and passes has more than \<open>MAX_CONCURRENT = 2\<close> running jobs, a pass from
  a state within the cap ends within the cap, and a pass that finds the cap reached after
  its completions admits nobody.  \<open>GpuScheduler\<close> has no such option: what bounds it is
  the GPUs.  With the synthetic device alone it admits a job only when none is running;
  in general an iteration adds at most one running job.
\<close>

theorem daemon_running_cap:
  "(reachable entries \<longrightarrow> int (d_running_count entries) \<le> MAX_CONCURRENT)
   \<and> (int (d_running_count entries) \<le> MAX_CONCURRENT \<longrightarrow>
        int (d_running_count (snd (process_jobs rnd now clk entries))) \<le> MAX_CONCURRENT)
   \<and> (MAX_CONCURRENT \<le> int (d_running_count (snd (complete_loop now entries))) \<longrightarrow>
        snd (process_jobs rnd now clk entries) = snd (complete_loop now entries))
   \<and> MAX_CONCURRENT = 2
   \<and> (running_count st \<le> 1 \<longrightarrow>
        running_count (snd (run_forever_step st virtual_gpus sclk new_pid)) \<le> 1)
   \<and> running_count (snd (run_forever_step st metrics sclk new_pid)) \<le> running_count st + 1"
  using reachable_cap [of entries] process_jobs_cap [of rnd now clk entries]
    process_jobs_full [of now entries rnd clk] virtual_step_cap [of st sclk new_pid]
    step_running_count [of st metrics sclk new_pid]
  by (auto simp: MAX_CONCURRENT_def)

lemmas eval_score = compute_priority_def round_hundredths_def f_fair_def f_age_def
  f_phys_def f_res_def f_hil_def is_active_def W_FAIR_def W_AGE_def W_PHYS_def W_RES_def
  W_HIL_def PHYS_KEYWORDS_def pending_doc_def lower_def lower_char_def getd_def Let_def

lemma docs_complete: "complete_loop 60 docs_example = (None, docs_example)"
  by (simp add: docs_example_def pending_doc_def is_due_def)

lemma docs_scores:
  "compute_priority round_hundredths 60 (pending_doc ''1001'' ''alice'' ''standard'') docs_example = 5 / 2"
  "compute_priority round_hundredths 60 (pending_doc ''1002'' ''alice'' ''hil'') docs_example = 25 / 2"
  "compute_priority round_hundredths 60 (pending_doc ''1003'' ''carol'' ''standard'') docs_example = 3"
  by (simp_all add: eval_score docs_example_def)

lemma docs_pending:
  "pending_scored round_hundredths (\<lambda>k. 60) docs_example = [(0, 5 / 2), (1, 25 / 2), (2, 3)]"
proof -
  have idx: "filter (\<lambda>i. d_status (docs_example ! i) = Some ''PENDING'') [0..<length docs_example]
      = [0, 1, 2]"
    by (simp add: docs_example_def pending_doc_def upt_rec)
  have nth: "docs_example ! 0 = pending_doc ''1001'' ''alice'' ''standard''"
    "docs_example ! Suc 0 = pending_doc ''1002'' ''alice'' ''hil''"
    "docs_example ! 2 = pending_doc ''1003'' ''carol'' ''standard''"
    by (simp_all add: docs_example_def)
  show ?thesis
    unfolding pending_scored_def idx by (simp add: nth docs_scores)
qed

lemma docs_example_pass:
  "snd (process_jobs round_hundredths 60 (\<lambda>k. 60) docs_example)
     = [pending_doc ''1001'' ''alice'' ''standard'',
        start_job 60 (25 / 2) (pending_doc ''1002'' ''alice'' ''hil''),
        start_job 60 3 (pending_doc ''1003'' ''carol'' ''standard'')]"
proof -
  have s: "sort_key (\<lambda>(i, p). - p) [(0::nat, 5 / 2 :: real), (1, 25 / 2), (2, 3)]
      = [(1, 25 / 2), (2, 3), (0, 5 / 2)]"
    by simp
  have n: "docs_example \<noteq> []" "d_running_count docs_example = 0"
    by (simp_all add: docs_example_def d_running_count_def pending_doc_def)
  have a: "admit_loop 60 2 [(1, 25 / 2), (2, 3), (0, 5 / 2)] docs_example
      = (None, [pending_doc ''1001'' ''alice'' ''standard'',
        start_job 60 (25 / 2) (pending_doc ''1002'' ''alice'' ''hil''),
        start_job 60 3 (pending_doc ''1003'' ''carol'' ''standard'')])"
    by (simp add: docs_example_def Let_def pending_doc_def start_job_def)
  have "process_jobs round_hundredths 60 (\<lambda>k. 60) docs_example
      = admit_loop 60 2 (sort_key (\<lambda>(i, p). - p) (pending_scored round_hundredths (\<lambda>k. 60) docs_example))
          docs_example"
    by (simp add: process_jobs_def docs_complete n MAX_CONCURRENT_def del: admit_loop.simps)
  then show ?thesis
    by (simp only: docs_pending s a snd_conv)
qed

lemma docs_example_reachable: "reachable docs_example"
proof -
  have r0: "reachable []" by (rule reachable.start)
  have r1: "reachable ([] @ [pending_doc ''1001'' ''alice'' ''standard''])"
    by (rule reachable.submit [OF r0]) (simp add: pending_doc_def)
  have r2: "reachable (([] @ [pending_doc ''1001'' ''alice'' ''standard''])
                          @ [pending_doc ''1002'' ''alice'' ''hil''])"
    by (rule reachable.submit [OF r1]) (simp add: pending_doc_def)
  have r3: "reachable ((([] @ [pending_doc ''1001'' ''alice'' ''standard''])
                          @ [pending_doc ''1002'' ''alice'' ''hil''])
                          @ [pending_doc ''1003'' ''carol'' ''standard''])"
    by (rule reachable.submit [OF r2]) (simp add: pending_doc_def)
  then show ?thesis by (simp add: docs_example_def)
qed

lemma docs_after_complete:
  "complete_loop 70 (snd (process_jobs round_hundredths 60 (\<lambda>k. 60) docs_example))
     = (None, snd (process_jobs round_hundredths 60 (\<lambda>k. 60) docs_example))"
  unfolding docs_example_pass by (simp add: pending_doc_def start_job_def is_due_def)

theorem daemon_running_cap_witness:
  "reachable (snd (process_jobs round_hundredths 60 (\<lambda>k. 60) docs_example))
   \<and> map d_status (snd (process_jobs round_hundredths 60 (\<lambda>k. 60) docs_example))
        = [Some ''PENDING'', Some ''RUNNING'', Some ''RUNNING'']
   \<and> int (d_running_count (snd (process_jobs round_hundredths 60 (\<lambda>k. 60) docs_example))) = MAX_CONCURRENT
   \<and> snd (process_jobs round_hundredths 70 (\<lambda>k. 70) (snd (process_jobs round_hundredths 60 (\<lambda>k. 60) docs_example)))
        = snd (process_jobs round_hundredths 60 (\<lambda>k. 60) docs_example)
   \<and> running_count sched_queue_example = 0
   \<and> running_count (snd (run_forever_step sched_queue_example virtual_gpus (\<lambda>k. 100) 4242)) = 1"
proof -
  have r: "reachable (snd (process_jobs round_hundredths 60 (\<lambda>k. 60) docs_example))"
    by (rule reachable.pass [OF docs_example_reachable])
  have st: "map d_status (snd (process_jobs round_hundredths 60 (\<lambda>k. 60) docs_example))
        = [Some ''PENDING'', Some ''RUNNING'', Some ''RUNNING'']"
    unfolding docs_example_pass by (simp add: pending_doc_def start_job_def)
  have cnt: "int (d_running_count (snd (process_jobs round_hundredths 60 (\<lambda>k. 60) docs_example))) = MAX_CONCURRENT"
    unfolding docs_example_pass
    by (simp add: pending_doc_def start_job_def d_running_count_def MAX_CONCURRENT_def)
  have q: "running_count sched_queue_example = 0"
    "running_count (snd (run_forever_step sched_queue_example virtual_gpus (\<lambda>k. 100) 4242)) = 1"
    by (simp_all add: sched_queue_example_def eval_step eval_prio eval_rename eval_sched)
  from daemon_running_cap [of "snd (process_jobs round_hundredths 60 (\<lambda>k. 60) docs_example)"
         round_hundredths 70 "\<lambda>k. 70"
         sched_queue_example "\<lambda>k. 100" 4242 virtual_gpus]
  have "snd (process_jobs round_hundredths 70 (\<lambda>k. 70) (snd (process_jobs round_hundredths 60 (\<lambda>k. 60) docs_example)))
        = snd (process_jobs round_hundredths 60 (\<lambda>k. 60) docs_example)"
    using r cnt docs_after_complete by simp
  with r st cnt q show ?thesis by simp
qed

section \<open>QoS and the order of admission\<close>

lemma round_hundredths_close: "round2_close round_hundredths"
proof -
  have "\<bar>of_int \<lfloor>y + 1 / 2\<rfloor> / 100 - y / 100\<bar> \<le> 1 / 100" for y :: real
  proof -
    have "of_int \<lfloor>y + 1 / 2\<rfloor> \<le> y + 1 / 2" "y + 1 / 2 < of_int \<lfloor>y + 1 / 2\<rfloor> + 1"
      by linarith+
    then show ?thesis by (simp add: abs_le_iff field_simps)
  qed
  from this [of "x * 100" for x] show ?thesis
    by (simp add: round2_close_def round_hundredths_def)
qed

lemma round2_gap:
  assumes "round2_close rnd" "x + 1 \<le> y"
  shows "rnd x < rnd y"
proof -
  from assms(1) have "\<bar>rnd x - x\<bar> \<le> 1 / 100" "\<bar>rnd y - y\<bar> \<le> 1 / 100"
    by (simp_all add: round2_close_def)
  with assms(2) show ?thesis by linarith
qed

lemma round2_shift:
  assumes "round2_close rnd"
  shows "rnd x + 10 - 1 / 50 \<le> rnd (x + 10)"
proof -
  from assms have "\<bar>rnd x - x\<bar> \<le> 1 / 100" "\<bar>rnd (x + 10) - (x + 10)\<bar> \<le> 1 / 100"
    by (simp_all add: round2_close_def)
  then show ?thesis by linarith
qed

lemma f_age_close:
  assumes "\<bar>t - t'\<bar> \<le> 60" "d_submitted_at a = d_submitted_at b"
  shows "f_age t' b \<le> f_age t a + 1"
proof (cases "d_submitted_at b")
  case (Stamp sub)
  from assms(1) have "t' - sub \<le> (t - sub) + 60" by linarith
  then have "(t' - sub) / 60 \<le> (t - sub) / 60 + 1" by (simp add: field_simps)
  then have "max ((t' - sub) / 60) 0 \<le> max ((t - sub) / 60) 0 + 1" by linarith
  with Stamp assms(2) show ?thesis by (simp add: f_age_def)
qed (use assms(2) in \<open>simp_all add: f_age_def\<close>)

lemma hil_scores_higher:
  assumes "round2_close rnd" "same_but_qos a b" "f_hil a = 1" "f_hil b = 0" "\<bar>t - t'\<bar> \<le> 60"
  shows "compute_priority rnd t' b all < compute_priority rnd t a all"
proof -
  from assms(2) have "f_fair a all = f_fair b all" "f_phys a = f_phys b" "f_res a = f_res b"
    "d_submitted_at a = d_submitted_at b"
    by (simp_all add: same_but_qos_def f_fair_def f_phys_def f_res_def)
  with f_age_close [OF assms(5), of a b] assms(3,4) show ?thesis
    unfolding compute_priority_def
    by (intro round2_gap [OF assms(1)])
       (simp add: W_FAIR_def W_AGE_def W_PHYS_def W_RES_def W_HIL_def)
qed

lemma hil_scores_ten_more:
  assumes "round2_close rnd" "same_but_qos a b" "f_hil a = 1" "f_hil b = 0"
  shows "compute_priority rnd t b all + 10 - 1 / 50 \<le> compute_priority rnd t a all"
proof -
  from assms(2) have "f_fair a all = f_fair b all" "f_phys a = f_phys b" "f_res a = f_res b"
    "f_age t a = f_age t b"
    by (simp_all add: same_but_qos_def f_fair_def f_phys_def f_res_def f_age_def)
  with assms(3,4) round2_shift [OF assms(1), of "W_FAIR * f_fair b all + W_AGE * f_age t b
                + W_PHYS * f_phys b + W_RES * f_res b"]
  show ?thesis
    by (simp add: compute_priority_def W_HIL_def)
qed

lemma complete_loop_other:
  "n < length es \<Longrightarrow> d_status (es ! n) \<noteq> Some ''RUNNING'' \<Longrightarrow>
     snd (complete_loop now es) ! n = es ! n"
proof (induction es arbitrary: n)
  case Nil
  then show ?case by simp
next
  case (Cons j es)
  show ?case
  proof (cases n)
    case 0
    with Cons.prems show ?thesis
      by (auto simp: is_due_def Let_def split: prod.splits)
  next
    case (Suc m)
    with Cons.prems Cons.IH [of m] show ?thesis
      by (auto simp: Let_def split: prod.splits)
  qed
qed

lemma pending_scored_mem:
  assumes "(n, p) \<in> set (pending_scored rnd clk es)"
  shows "n < length es \<and> d_status (es ! n) = Some ''PENDING''
         \<and> (\<exists>a. p = compute_priority rnd (clk a) (es ! n) es)"
proof -
  let ?idx = "filter (\<lambda>i. d_status (es ! i) = Some ''PENDING'') [0..<length es]"
  from assms obtain k i where ki: "(k, i) \<in> set (enumerate 0 ?idx)"
    "(n, p) = (i, compute_priority rnd (clk k) (es ! i) es)"
    by (auto simp: pending_scored_def)
  from ki(1) have "i \<in> set ?idx"
    unfolding enumerate_eq_zip by (rule set_zip_rightD)
  with ki(2) show ?thesis by auto
qed

lemma pending_scored_has:
  assumes "n < length es" "d_status (es ! n) = Some ''PENDING''"
  shows "\<exists>p. (n, p) \<in> set (pending_scored rnd clk es)"
proof -
  let ?idx = "filter (\<lambda>i. d_status (es ! i) = Some ''PENDING'') [0..<length es]"
  from assms have "n \<in> set ?idx" by simp
  then have "\<exists>k<length ?idx. ?idx ! k = n" unfolding in_set_conv_nth .
  then obtain k where k: "k < length ?idx" "?idx ! k = n" by blast
  have "(k, n) \<in> set (enumerate 0 ?idx)"
    unfolding in_set_enumerate_eq using k by simp
  then have "(n, compute_priority rnd (clk k) (es ! n) es) \<in> set (pending_scored rnd clk es)"
    unfolding pending_scored_def by force
  then show ?thesis ..
qed

lemma admit_all_length: "length (admit_all now xs es) = length es"
  unfolding admit_all_def by (induction xs arbitrary: es) auto

lemma admit_all_status:
  "n < length es \<Longrightarrow>
     d_status (admit_all now xs es ! n)
       = (if n \<in> fst ` set xs then Some ''RUNNING'' else d_status (es ! n))"
proof (induction xs arbitrary: es)
  case Nil
  then show ?case by (simp add: admit_all_def)
next
  case (Cons x xs)
  obtain i p where x: "x = (i, p)" by (cases x)
  let ?es' = "es[i := start_job now p (es ! i)]"
  have step: "admit_all now (x # xs) es = admit_all now xs ?es'"
    by (simp add: admit_all_def x)
  from Cons.prems have len: "n < length ?es'" by simp
  have here: "d_status (?es' ! n) = (if n = i then Some ''RUNNING'' else d_status (es ! n))"
    using Cons.prems by (simp add: nth_list_update start_job_def)
  from Cons.IH [OF len] here step x show ?case by auto
qed

lemma admit_loop_prefix:
  "\<exists>m. snd (admit_loop now s xs es) = admit_all now (take m xs) es"
proof (induction xs arbitrary: s es)
  case Nil
  then show ?case by (simp add: admit_all_def)
next
  case (Cons x xs)
  obtain i p where x: "x = (i, p)" by (cases x)
  let ?es' = "es[i := start_job now p (es ! i)]"
  show ?case
  proof (cases "s \<le> 0")
    case True
    with x have "snd (admit_loop now s (x # xs) es) = admit_all now (take 0 (x # xs)) es"
      by (simp add: admit_all_def)
    then show ?thesis ..
  next
    case False
    show ?thesis
    proof (cases "d_job_id (es ! i)")
      case None
      with False x have "snd (admit_loop now s (x # xs) es) = admit_all now (take 1 (x # xs)) es"
        by (simp add: admit_all_def Let_def)
      then show ?thesis ..
    next
      case (Some y)
      from Cons [of "s - 1" ?es'] obtain m where
        m: "snd (admit_loop now (s - 1) xs ?es') = admit_all now (take m xs) ?es'" ..
      with False Some x
      have "snd (admit_loop now s (x # xs) es) = admit_all now (take (Suc m) (x # xs)) es"
        by (simp add: admit_all_def Let_def)
      then show ?thesis ..
    qed
  qed
qed

lemma sorted_take_earlier:
  assumes "sorted (map f xs)" "y \<in> set (take m xs)" "x \<in> set xs" "f x < f y"
  shows "x \<in> set (take m xs)"
proof -
  from assms(2) obtain a where a: "a < m" "a < length xs" "xs ! a = y"
    by (auto simp: in_set_conv_nth)
  from assms(3) obtain b where b: "b < length xs" "xs ! b = x"
    by (auto simp: in_set_conv_nth)
  have "b < m"
  proof (rule ccontr)
    assume "\<not> b < m"
    with a(1) have "a \<le> b" by simp
    with assms(1) b(1) have "map f xs ! a \<le> map f xs ! b"
      by (intro sorted_nth_mono) simp_all
    with a b assms(4) show False by simp
  qed
  with b show ?thesis by (auto simp: in_set_conv_nth)
qed

lemma hil_admitted_first:
  assumes i: "i < length es" "d_status (es ! i) = Some ''PENDING''"
    and k: "k < length es" "d_status (es ! k) = Some ''PENDING''"
    and same: "same_but_qos (es ! k) (es ! i)"
    and hil: "f_hil (es ! k) = 1" "f_hil (es ! i) = 0"
    and rnd: "round2_close rnd"
    and clk: "\<forall>m n. \<bar>clk m - clk n\<bar> \<le> 60"
    and run: "d_status (snd (process_jobs rnd now clk es) ! i) = Some ''RUNNING''"
  shows "d_status (snd (process_jobs rnd now clk es) ! k) = Some ''RUNNING''"
proof -
  obtain e es1 where c: "complete_loop now es = (e, es1)" by (cases "complete_loop now es")
  from complete_loop_length [of now es] c have len: "length es1 = length es" by simp
  from complete_loop_other [of i es now] complete_loop_other [of k es now] c i k
  have same1: "es1 ! i = es ! i" "es1 ! k = es ! k" by simp_all
  from i(1) have ne: "es \<noteq> []" by auto
  let ?xs = "sort_key (\<lambda>(i, p). - p) (pending_scored rnd clk es1)"
  have admitted: "snd (process_jobs rnd now clk es) = snd (admit_loop now (MAX_CONCURRENT - int (d_running_count es1)) ?xs es1)"
  proof (rule ccontr)
    assume n: "\<not> ?thesis"
    with c ne have "snd (process_jobs rnd now clk es) = es1"
      by (auto simp: process_jobs_def Let_def split: option.splits if_splits)
    with run same1 i show False by simp
  qed
  from admit_loop_prefix [of now "MAX_CONCURRENT - int (d_running_count es1)" ?xs es1]
  obtain m where m: "snd (process_jobs rnd now clk es) = admit_all now (take m ?xs) es1"
    using admitted by auto
  from run m admit_all_status [of i es1 now "take m ?xs"] i len same1
  have "i \<in> fst ` set (take m ?xs)" by (auto split: if_splits)
  then obtain pi where pi: "(i, pi) \<in> set (take m ?xs)" by force
  then have "(i, pi) \<in> set ?xs" by (rule in_set_takeD)
  then have "(i, pi) \<in> set (pending_scored rnd clk es1)" by simp
  from pending_scored_mem [OF this] obtain a where
    a: "pi = compute_priority rnd (clk a) (es1 ! i) es1" by blast
  from pending_scored_has [of k es1 rnd clk] k len same1
  obtain pk where pk: "(k, pk) \<in> set (pending_scored rnd clk es1)" by auto
  from pending_scored_mem [OF pk] obtain b where
    b: "pk = compute_priority rnd (clk b) (es1 ! k) es1" by blast
  from clk have "\<bar>clk b - clk a\<bar> \<le> 60" by blast
  from hil_scores_higher [OF rnd _ _ _ this, of "es1 ! k" "es1 ! i" es1] same hil same1 a b
  have "pi < pk" by simp
  then have key: "(\<lambda>(i, p). - p) (k, pk) < (\<lambda>(i, p). - p) (i, pi)" by simp
  have "sorted (map (\<lambda>(i, p). - p) ?xs)" by (rule sorted_sort_key)
  from sorted_take_earlier [OF this pi _ key] pk
  have "(k, pk) \<in> set (take m ?xs)" by simp
  then have "k \<in> fst ` set (take m ?xs)" by force
  with m admit_all_status [of k es1 now "take m ?xs"] k len show ?thesis by simp
qed

lemma pair_complete: "complete_loop 60 docs_pair_example = (None, docs_pair_example)"
  by (simp add: docs_pair_example_def pending_doc_def is_due_def)

lemma pair_scores:
  "compute_priority round_hundredths 60 (pending_doc ''1001'' ''alice'' ''standard'') docs_pair_example = 5 / 2"
  "compute_priority round_hundredths 60 (pending_doc ''1002'' ''alice'' ''hil'') docs_pair_example = 25 / 2"
  by (simp_all add: eval_score docs_pair_example_def)

lemma pair_pending:
  "pending_scored round_hundredths (\<lambda>k. 60) docs_pair_example = [(0, 5 / 2), (1, 25 / 2)]"
proof -
  have idx: "filter (\<lambda>i. d_status (docs_pair_example ! i) = Some ''PENDING'')
        [0..<length docs_pair_example] = [0, 1]"
    by (simp add: docs_pair_example_def pending_doc_def upt_rec)
  have nth: "docs_pair_example ! 0 = pending_doc ''1001'' ''alice'' ''standard''"
    "docs_pair_example ! Suc 0 = pending_doc ''1002'' ''alice'' ''hil''"
    by (simp_all add: docs_pair_example_def)
  show ?thesis
    unfolding pending_scored_def idx by (simp add: nth pair_scores)
qed

lemma pair_pass:
  "snd (process_jobs round_hundredths 60 (\<lambda>k. 60) docs_pair_example)
     = [start_job 60 (5 / 2) (pending_doc ''1001'' ''alice'' ''standard''),
        start_job 60 (25 / 2) (pending_doc ''1002'' ''alice'' ''hil'')]"
proof -
  have s: "sort_key (\<lambda>(i, p). - p) [(0::nat, 5 / 2 :: real), (1, 25 / 2)]
      = [(1, 25 / 2), (0, 5 / 2)]"
    by simp
  have n: "docs_pair_example \<noteq> []" "d_running_count docs_pair_example = 0"
    by (simp_all add: docs_pair_example_def d_running_count_def pending_doc_def)
  have a: "admit_loop 60 2 [(1, 25 / 2), (0, 5 / 2)] docs_pair_example
      = (None, [start_job 60 (5 / 2) (pending_doc ''1001'' ''alice'' ''standard''),
        start_job 60 (25 / 2) (pending_doc ''1002'' ''alice'' ''hil'')])"
    by (simp add: docs_pair_example_def Let_def pending_doc_def start_job_def)
  have "process_jobs round_hundredths 60 (\<lambda>k. 60) docs_pair_example
      = admit_loop 60 2 (sort_key (\<lambda>(i, p). - p) (pending_scored round_hundredths (\<lambda>k. 60) docs_pair_example))
          docs_pair_example"
    by (simp add: process_jobs_def pair_complete n MAX_CONCURRENT_def del: admit_loop.simps)
  then show ?thesis
    by (simp only: pair_pending s a snd_conv)
qed

lemma engine_hil_more:
  "engine_priority default_PriorityConfig ud t0 t (dj\<lparr>d_qos := Some ''hil''\<rparr>)
     = engine_priority default_PriorityConfig ud t0 t (dj\<lparr>d_qos := Some ''standard''\<rparr>) + 5000"
  by (simp add: engine_priority_def engine_age_factor_def wait_time_sec_def engine_fs_factor_def
        engine_size_factor_def engine_part_factor_def engine_partition_def engine_qos_factor_def
        engine_qos_def default_PriorityConfig_def default_QOS_SCORES_def eval_lower)

lemma engine_hil_factor:
  "engine_qos_factor default_PriorityConfig (dj\<lparr>d_qos := Some ''hil''\<rparr>) = 1"
  by (simp add: engine_qos_factor_def engine_qos_def default_PriorityConfig_def
        default_QOS_SCORES_def eval_lower)

lemma engine_qos_max: "\<forall>q v. QOS_SCORES default_PriorityConfig q = Some v \<longrightarrow> v \<le> 1"
  by (auto simp: default_PriorityConfig_def default_QOS_SCORES_def split: if_splits)

lemma daemon_hil_more:
  "round2_close rnd \<Longrightarrow>
     compute_priority rnd t (dj\<lparr>d_qos := Some ''standard''\<rparr>) all + 10 - 1 / 50
       \<le> compute_priority rnd t (dj\<lparr>d_qos := Some ''hil''\<rparr>) all"
  by (rule hil_scores_ten_more) (simp_all add: same_but_qos_def f_hil_def eval_lower)

lemma engine_hil_code:
  "calculate_priority default_PriorityConfig ud t0 t (dj\<lparr>d_qos := Some ''standard''\<rparr>) = Inr p \<Longrightarrow>
     calculate_priority default_PriorityConfig ud t0 t (dj\<lparr>d_qos := Some ''hil''\<rparr>) = Inr (p + 5000)"
  using engine_hil_more [of ud t0 t dj]
  by (auto simp: calculate_priority_def split: if_splits)

lemma engine_returns:
  assumes "d_submitted_at dj \<noteq> BadStamp" "0 \<le> tracker_get_usage ud (getd (d_user dj) ''unknown'')"
  shows "\<exists>p. calculate_priority default_PriorityConfig ud t0 t dj = Inr p"
proof -
  from assms(2) have "0 < 1 + tracker_get_usage ud (getd (d_user dj) ''unknown'') / 10" by simp
  with assms(1) show ?thesis
    by (simp add: calculate_priority_def default_PriorityConfig_def)
qed

lemma slurm_hil_unknown:
  "qos_factor default_SlurmConfig (j\<lparr>qos := ''hil''\<rparr>) = 0.5"
  "qos_factor default_SlurmConfig (j\<lparr>qos := ''standard''\<rparr>) = 0.5"
  "slurm_priority default_SlurmConfig u t (j\<lparr>qos := ''hil''\<rparr>)
     = slurm_priority default_SlurmConfig u t (j\<lparr>qos := ''standard''\<rparr>)"
  by (simp_all add: eval_prio)

lemma slurm_hil_code:
  "calculate_slurm_priority default_SlurmConfig u t (j\<lparr>qos := ''standard''\<rparr>) = Inr (p, j1) \<Longrightarrow>
     \<exists>j2. calculate_slurm_priority default_SlurmConfig u t (j\<lparr>qos := ''hil''\<rparr>) = Inr (p, j2)"
  using slurm_hil_unknown(3) [of u t j]
  by (auto simp: calculate_slurm_priority_def Let_def get_usage_def split: if_splits)

text \<open>
  C4, as the code has it.  In the priority engine's default table \<open>hil\<close> has the factor
  1, the largest of the table, and \<open>calculate_priority\<close> gives a document 5000 more with QoS
  \<open>hil\<close> than with \<open>standard\<close>.  In the daemon \<open>compute_priority\<close> gives it at least 9.98
  more, whatever way \<open>round(x, 2)\<close> goes within a hundredth; and when the clock readings of
  one pass lie within 60 s of each other, a pass that starts a pending job also starts
  every pending job that differs from it in QoS only and has QoS \<open>hil\<close>.  The default
  table of \<open>GpuScheduler\<close> has no entry \<open>hil\<close>: there the factor is 0.5, as for
  \<open>standard\<close>, and \<open>_calculate_slurm_priority\<close> returns the same score for both.
\<close>

theorem hil_first_where_configured:
  "engine_qos_factor default_PriorityConfig (dj\<lparr>d_qos := Some ''hil''\<rparr>) = 1
   \<and> (\<forall>q v. QOS_SCORES default_PriorityConfig q = Some v \<longrightarrow> v \<le> 1)
   \<and> (\<forall>p. calculate_priority default_PriorityConfig ud t0 t (dj\<lparr>d_qos := Some ''standard''\<rparr>)
            = Inr p \<longrightarrow>
          calculate_priority default_PriorityConfig ud t0 t (dj\<lparr>d_qos := Some ''hil''\<rparr>)
            = Inr (p + 5000))
   \<and> (d_submitted_at dj \<noteq> BadStamp
        \<and> 0 \<le> tracker_get_usage ud (getd (d_user dj) ''unknown'') \<longrightarrow>
        (\<exists>p. calculate_priority default_PriorityConfig ud t0 t (dj\<lparr>d_qos := Some ''standard''\<rparr>)
            = Inr p))
   \<and> (round2_close rnd \<longrightarrow>
        compute_priority rnd t (dj\<lparr>d_qos := Some ''standard''\<rparr>) all + 10 - 1 / 50
          \<le> compute_priority rnd t (dj\<lparr>d_qos := Some ''hil''\<rparr>) all)
   \<and> (round2_close rnd \<and> i < length es \<and> k < length es
        \<and> d_status (es ! i) = Some ''PENDING'' \<and> d_status (es ! k) = Some ''PENDING''
        \<and> same_but_qos (es ! k) (es ! i) \<and> f_hil (es ! k) = 1 \<and> f_hil (es ! i) = 0
        \<and> (\<forall>m n. \<bar>clk m - clk n\<bar> \<le> 60)
        \<and> d_status (snd (process_jobs rnd now clk es) ! i) = Some ''RUNNING''
        \<longrightarrow> d_status (snd (process_jobs rnd now clk es) ! k) = Some ''RUNNING'')
   \<and> qos_factor default_SlurmConfig (j\<lparr>qos := ''hil''\<rparr>) = 0.5
   \<and> qos_factor default_SlurmConfig (j\<lparr>qos := ''standard''\<rparr>) = 0.5
   \<and> (\<forall>p j1. calculate_slurm_priority default_SlurmConfig u t (j\<lparr>qos := ''standard''\<rparr>)
            = Inr (p, j1) \<longrightarrow>
          (\<exists>j2. calculate_slurm_priority default_SlurmConfig u t (j\<lparr>qos := ''hil''\<rparr>)
            = Inr (p, j2)))"
proof -
  have eng: "\<forall>p. calculate_priority default_PriorityConfig ud t0 t (dj\<lparr>d_qos := Some ''standard''\<rparr>)
            = Inr p \<longrightarrow>
          calculate_priority default_PriorityConfig ud t0 t (dj\<lparr>d_qos := Some ''hil''\<rparr>)
            = Inr (p + 5000)"
    using engine_hil_code [of ud t0 t dj] by blast
  have ret: "d_submitted_at dj \<noteq> BadStamp
        \<and> 0 \<le> tracker_get_usage ud (getd (d_user dj) ''unknown'') \<longrightarrow>
        (\<exists>p. calculate_priority default_PriorityConfig ud t0 t (dj\<lparr>d_qos := Some ''standard''\<rparr>)
            = Inr p)"
    using engine_returns [of "dj\<lparr>d_qos := Some ''standard''\<rparr>" ud t0 t] by simp
  have dm: "round2_close rnd \<longrightarrow>
        compute_priority rnd t (dj\<lparr>d_qos := Some ''standard''\<rparr>) all + 10 - 1 / 50
          \<le> compute_priority rnd t (dj\<lparr>d_qos := Some ''hil''\<rparr>) all"
    using daemon_hil_more [of rnd t dj all] by blast
  have adm: "round2_close rnd \<and> i < length es \<and> k < length es
        \<and> d_status (es ! i) = Some ''PENDING'' \<and> d_status (es ! k) = Some ''PENDING''
        \<and> same_but_qos (es ! k) (es ! i) \<and> f_hil (es ! k) = 1 \<and> f_hil (es ! i) = 0
        \<and> (\<forall>m n. \<bar>clk m - clk n\<bar> \<le> 60)
        \<and> d_status (snd (process_jobs rnd now clk es) ! i) = Some ''RUNNING''
        \<longrightarrow> d_status (snd (process_jobs rnd now clk es) ! k) = Some ''RUNNING''"
    using hil_admitted_first [where i = i and es = es and k = k and clk = clk and now = now
            and rnd = rnd]
    by blast
  have sl: "\<forall>p j1. calculate_slurm_priority default_SlurmConfig u t (j\<lparr>qos := ''standard''\<rparr>)
            = Inr (p, j1) \<longrightarrow>
          (\<exists>j2. calculate_slurm_priority default_SlurmConfig u t (j\<lparr>qos := ''hil''\<rparr>)
            = Inr (p, j2))"
    using slurm_hil_code [of u t j] by blast
  show ?thesis
    by (intro conjI engine_hil_factor engine_qos_max eng ret dm adm slurm_hil_unknown(1,2) sl)
qed

theorem hil_first_where_configured_witness:
  "round2_close round_hundredths
   \<and> 0 < length docs_pair_example \<and> 1 < length docs_pair_example
   \<and> d_status (docs_pair_example ! 0) = Some ''PENDING''
   \<and> d_status (docs_pair_example ! 1) = Some ''PENDING''
   \<and> same_but_qos (docs_pair_example ! 1) (docs_pair_example ! 0)
   \<and> f_hil (docs_pair_example ! 1) = 1 \<and> f_hil (docs_pair_example ! 0) = 0
   \<and> d_status (snd (process_jobs round_hundredths 60 (\<lambda>k. 60) docs_pair_example) ! 0)
        = Some ''RUNNING''
   \<and> d_status (snd (process_jobs round_hundredths 60 (\<lambda>k. 60) docs_pair_example) ! 1)
        = Some ''RUNNING''
   \<and> map d_status (snd (process_jobs round_hundredths 60 (\<lambda>k. 60) docs_example))
        = [Some ''PENDING'', Some ''RUNNING'', Some ''RUNNING'']
   \<and> compute_priority round_hundredths 60 (pending_doc ''1001'' ''alice'' ''standard'')
        docs_pair_example = 5 / 2
   \<and> compute_priority round_hundredths 60 (pending_doc ''1002'' ''alice'' ''hil'')
        docs_pair_example = 25 / 2
   \<and> calculate_priority default_PriorityConfig Map.empty 0 0
        (pending_doc ''1001'' ''alice'' ''standard'') = Inr 15512.5
   \<and> calculate_priority default_PriorityConfig Map.empty 0 0
        (pending_doc ''1002'' ''alice'' ''hil'') = Inr 20512.5"
proof -
  have pre: "0 < length docs_pair_example" "1 < length docs_pair_example"
    "d_status (docs_pair_example ! 0) = Some ''PENDING''"
    "d_status (docs_pair_example ! 1) = Some ''PENDING''"
    "same_but_qos (docs_pair_example ! 1) (docs_pair_example ! 0)"
    "f_hil (docs_pair_example ! 1) = 1" "f_hil (docs_pair_example ! 0) = 0"
    by (simp_all add: docs_pair_example_def pending_doc_def same_but_qos_def f_hil_def eval_lower)
  have run0: "d_status (snd (process_jobs round_hundredths 60 (\<lambda>k. 60) docs_pair_example) ! 0)
      = Some ''RUNNING''"
    unfolding pair_pass by (simp add: start_job_def)
  have clk: "\<forall>m n. \<bar>(\<lambda>k::nat. 60::real) m - (\<lambda>k. 60) n\<bar> \<le> 60" by simp
  note inst = hil_first_where_configured [where i = 0 and es = docs_pair_example and k = 1
      and clk = "\<lambda>k. 60" and now = 60 and rnd = round_hundredths
      and dj = "pending_doc ''1001'' ''alice'' ''standard''" and ud = Map.empty and ?t0.0 = 0
      and t = 0]
  from inst pre run0 clk round_hundredths_close
  have run1: "d_status (snd (process_jobs round_hundredths 60 (\<lambda>k. 60) docs_pair_example) ! 1)
      = Some ''RUNNING''"
    by blast
  have st: "map d_status (snd (process_jobs round_hundredths 60 (\<lambda>k. 60) docs_example))
        = [Some ''PENDING'', Some ''RUNNING'', Some ''RUNNING'']"
    unfolding docs_example_pass by (simp add: pending_doc_def start_job_def)
  have std: "calculate_priority default_PriorityConfig Map.empty 0 0
        (pending_doc ''1001'' ''alice'' ''standard'') = Inr 15512.5"
    by (simp add: eval_engine pending_doc_def)
  have upd: "(pending_doc ''1001'' ''alice'' ''standard'')\<lparr>d_qos := Some ''standard''\<rparr>
        = pending_doc ''1001'' ''alice'' ''standard''"
    "(pending_doc ''1001'' ''alice'' ''standard'')\<lparr>d_qos := Some ''hil''\<rparr>
        = (pending_doc ''1002'' ''alice'' ''hil'')\<lparr>d_job_id := Some ''1001''\<rparr>"
    by (simp_all add: pending_doc_def)
  have hil: "calculate_priority default_PriorityConfig Map.empty 0 0
        (pending_doc ''1002'' ''alice'' ''hil'') = Inr 20512.5"
    by (simp add: eval_engine pending_doc_def)
  from pre run0 run1 st std hil pair_scores round_hundredths_close show ?thesis by blast
qed

text \<open>
  C4 as stated fails for \<open>GpuScheduler\<close>: of two jobs that differ in QoS only, the
  \<open>hil\<close> job gets the factor 0.5 and the same score as the \<open>standard\<close> job, and the
  \<open>standard\<close> job, first in the store, is the one admitted.
\<close>

theorem hil_unknown_to_scheduler:
  "qos_factor default_SlurmConfig (queued_job ''j2'' ''alice'' (1024 ^ 3) ''hil'') = 1 / 2
   \<and> map_sum id fst (calculate_slurm_priority default_SlurmConfig Map.empty 100
          (queued_job ''j2'' ''alice'' (1024 ^ 3) ''hil''))
        = map_sum id fst (calculate_slurm_priority default_SlurmConfig Map.empty 100
          (queued_job ''j1'' ''alice'' (1024 ^ 3) ''standard''))
   \<and> \<not> isl (calculate_slurm_priority default_SlurmConfig Map.empty 100
          (queued_job ''j2'' ''alice'' (1024 ^ 3) ''hil''))
   \<and> map qos (jobs sched_qos_example) = [''standard'', ''hil'']
   \<and> map status (jobs (snd (run_forever_step sched_qos_example virtual_gpus (\<lambda>k. 100) 4242)))
        = [''RUNNING'', ''QUEUED'']"
  by (simp add: sched_qos_example_def eval_step eval_prio eval_rename eval_sched)

end
